theory Spec2Isabelle
  imports Main "HOL-Library.Word" "HOL-Library.AList"
begin

unbundle bit_operations_syntax

section \<open>Python values used by the daemon\<close>

text \<open>
  A Python \<open>dict\<close> whose iteration order matters is an association list in insertion
  order (its keys are distinct); a dict that is only looked up is a map.
  \<open>d.get(k, default)\<close> is \<open>dict_get_default\<close>.
\<close>

definition dict_get_default :: "('k \<rightharpoonup> 'v) \<Rightarrow> 'k \<Rightarrow> 'v \<Rightarrow> 'v" where
  "dict_get_default d k dflt = (case d k of None \<Rightarrow> dflt | Some v \<Rightarrow> v)"

text \<open>
  \<open>int(s)\<close> on a string: surrounding whitespace is stripped, one sign is allowed, then
  decimal digits, where a single underscore may stand between two digits. Anything else
  raises \<open>ValueError\<close>, which is \<open>None\<close> here.
\<close>

definition is_py_space :: "char \<Rightarrow> bool" where
  "is_py_space c = (c \<in> set [CHR 0x09, CHR 0x0A, CHR 0x0B, CHR 0x0C, CHR 0x0D,
                               CHR 0x1C, CHR 0x1D, CHR 0x1E, CHR 0x1F, CHR 0x20])"

definition py_strip :: "string \<Rightarrow> string" where
  "py_strip s = rev (dropWhile is_py_space (rev (dropWhile is_py_space s)))"

definition is_digit :: "char \<Rightarrow> bool" where
  "is_digit c = (c \<in> set ''0123456789'')"

definition digit_val :: "char \<Rightarrow> nat" where
  "digit_val c = of_char c - 48"

fun parse_digits :: "string \<Rightarrow> nat \<Rightarrow> nat option" where
  "parse_digits [] acc = Some acc"
| "parse_digits (c # cs) acc =
     (if is_digit c then parse_digits cs (10 * acc + digit_val c)
      else if c = CHR ''_'' then
        (case cs of
           [] \<Rightarrow> None
         | d # ds \<Rightarrow> if is_digit d then parse_digits cs acc else None)
      else None)"

definition py_nat :: "string \<Rightarrow> nat option" where
  "py_nat s = (case s of [] \<Rightarrow> None
               | c # cs \<Rightarrow> if is_digit c then parse_digits s 0 else None)"

definition py_int :: "string \<Rightarrow> int option" where
  "py_int s =
     (case py_strip s of
        [] \<Rightarrow> None
      | c # cs \<Rightarrow>
          if c = CHR ''-'' then map_option (\<lambda>n. - int n) (py_nat cs)
          else if c = CHR ''+'' then map_option int (py_nat cs)
          else map_option int (py_nat (c # cs)))"

text \<open>
  The exceptions the modelled code can raise. \<open>ResourceExhausted\<close> is the store's
  failure to allocate an index.
\<close>

datatype py_error = ValueError | KeyError | IndexError | OspdOpenvasError | ResourceExhausted

text \<open>\<open>sub in s\<close> on strings, \<open>s.split(sep)\<close> for a non-empty separator, and
  \<open>s.replace(c, '')\<close> for a single character.\<close>

fun py_in :: "string \<Rightarrow> string \<Rightarrow> bool" where
  "py_in sub [] = (sub = [])"
| "py_in sub (c # cs) = (take (length sub) (c # cs) = sub \<or> py_in sub cs)"

fun py_split_aux :: "string \<Rightarrow> nat \<Rightarrow> string \<Rightarrow> string \<Rightarrow> string list" where
  "py_split_aux sep skip cur [] = [cur]"
| "py_split_aux sep skip cur (c # cs) =
     (if 0 < skip then py_split_aux sep (skip - 1) cur cs
      else if sep \<noteq> [] \<and> take (length sep) (c # cs) = sep then
        cur # py_split_aux sep (length sep - 1) [] cs
      else py_split_aux sep 0 (cur @ [c]) cs)"

definition py_split :: "string \<Rightarrow> string \<Rightarrow> string list" where
  "py_split sep s = py_split_aux sep 0 [] s"

definition py_remove_char :: "char \<Rightarrow> string \<Rightarrow> string" where
  "py_remove_char c s = filter (\<lambda>x. x \<noteq> c) s"

text \<open>\<open>str(n)\<close> and \<open>'%d' % n\<close> for an integer.\<close>

function str_of_nat :: "nat \<Rightarrow> string" where
  "str_of_nat n =
     (if n < 10 then [char_of (48 + n)]
      else str_of_nat (n div 10) @ [char_of (48 + n mod 10)])"
  by pat_completeness auto
termination
  by (relation "measure id") auto

declare str_of_nat.simps [simp del]

definition str_of_int :: "int \<Rightarrow> string" where
  "str_of_int i = (if i < 0 then CHR ''-'' # str_of_nat (nat (- i)) else str_of_nat (nat i))"

text \<open>\<open>sep.join(xs)\<close>.\<close>

fun py_join :: "string \<Rightarrow> string list \<Rightarrow> string" where
  "py_join sep [] = []"
| "py_join sep [x] = x"
| "py_join sep (x # y # ys) = x @ sep @ py_join sep (y # ys)"

section \<open>Constants of \<open>daemon.py\<close>\<close>

definition OID_SSH_AUTH :: string where "OID_SSH_AUTH = ''1.3.6.1.4.1.25623.1.0.103591''"
definition OID_SMB_AUTH :: string where "OID_SMB_AUTH = ''1.3.6.1.4.1.25623.1.0.90023''"
definition OID_ESXI_AUTH :: string where "OID_ESXI_AUTH = ''1.3.6.1.4.1.25623.1.0.105058''"
definition OID_SNMP_AUTH :: string where "OID_SNMP_AUTH = ''1.3.6.1.4.1.25623.1.0.105076''"
definition OID_PING_HOST :: string where "OID_PING_HOST = ''1.3.6.1.4.1.25623.1.0.100315''"

text \<open>The \<open>AliveTest\<close> enumeration.\<close>

definition ALIVE_TEST_TCP_ACK_SERVICE :: int where "ALIVE_TEST_TCP_ACK_SERVICE = 1"
definition ALIVE_TEST_ICMP :: int where "ALIVE_TEST_ICMP = 2"
definition ALIVE_TEST_ARP :: int where "ALIVE_TEST_ARP = 4"
definition ALIVE_TEST_CONSIDER_ALIVE :: int where "ALIVE_TEST_CONSIDER_ALIVE = 8"
definition ALIVE_TEST_TCP_SYN_SERVICE :: int where "ALIVE_TEST_TCP_SYN_SERVICE = 16"

text \<open>\<open>_from_bool_to_str\<close>: the scanner's \<open>yes\<close> and \<open>no\<close> for ospd's 1 and 0.\<close>

definition from_bool_to_str :: "int \<Rightarrow> string" where
  "from_bool_to_str v = (if v = 1 then ''yes'' else ''no'')"

section \<open>\<open>build_credentials_as_prefs\<close>\<close>

type_synonym cred_params = "string \<rightharpoonup> string"

text \<open>
  The body of the loop over \<open>credentials.items()\<close>: the lines one entry appends. The
  entry's value is what \<open>credentials.get(service)\<close> reads again. The four tests on
  \<open>service\<close> are separate \<open>if\<close>s in the source.
\<close>

definition credential_as_prefs :: "string \<Rightarrow> cred_params \<Rightarrow> string list" where
  "credential_as_prefs service cred_params =
     (let cred_type = dict_get_default cred_params ''type'' '''';
          username = dict_get_default cred_params ''username'' '''';
          password = dict_get_default cred_params ''password'' ''''
      in
        (if service = ''ssh'' then
           (let port = dict_get_default cred_params ''port'' '''' in
            [''auth_port_ssh|||'' @ port,
             OID_SSH_AUTH @ '':1:'' @ ''entry:SSH login '' @ ''name:|||'' @ username]
            @ (if cred_type = ''up'' then
                 [OID_SSH_AUTH @ '':3:'' @ ''password:SSH password '' @ ''(unsafe!):|||'' @ password]
               else
                 (let private = dict_get_default cred_params ''private'' '''' in
                  [OID_SSH_AUTH @ '':2:'' @ ''password:SSH key passphrase:|||'' @ password,
                   OID_SSH_AUTH @ '':4:'' @ ''file:SSH private key:|||'' @ private])))
         else [])
        @ (if service = ''smb'' then
             [OID_SMB_AUTH @ '':1:entry'' @ '':SMB login:|||'' @ username,
              OID_SMB_AUTH @ '':2:'' @ ''password:SMB password:|||'' @ password]
           else [])
        @ (if service = ''esxi'' then
             [OID_ESXI_AUTH @ '':1:entry:'' @ ''ESXi login name:|||'' @ username,
              OID_ESXI_AUTH @ '':2:'' @ ''password:ESXi login password:|||'' @ password]
           else [])
        @ (if service = ''snmp'' then
             (let community = dict_get_default cred_params ''community'' '''';
                  auth_algorithm = dict_get_default cred_params ''auth_algorithm'' '''';
                  privacy_password = dict_get_default cred_params ''privacy_password'' '''';
                  privacy_algorithm = dict_get_default cred_params ''privacy_algorithm'' ''''
              in
                [OID_SNMP_AUTH @ '':1:'' @ ''password:SNMP Community:|||'' @ community,
                 OID_SNMP_AUTH @ '':2:'' @ ''entry:SNMPv3 Username:|||'' @ username,
                 OID_SNMP_AUTH @ '':3:'' @ ''password:SNMPv3 Password:|||'' @ password,
                 OID_SNMP_AUTH @ '':4:'' @ ''radio:SNMPv3 Authentication Algorithm:|||''
                   @ auth_algorithm,
                 OID_SNMP_AUTH @ '':5:'' @ ''password:SNMPv3 Privacy Password:|||''
                   @ privacy_password,
                 OID_SNMP_AUTH @ '':6:'' @ ''radio:SNMPv3 Privacy Algorithm:|||''
                   @ privacy_algorithm])
           else []))"

fun build_credentials_loop ::
  "(string \<times> cred_params) list \<Rightarrow> string list \<Rightarrow> string list" where
  "build_credentials_loop [] cred_prefs_list = cred_prefs_list"
| "build_credentials_loop ((service, cred_params) # rest) cred_prefs_list =
     build_credentials_loop rest (cred_prefs_list @ credential_as_prefs service cred_params)"

definition build_credentials_as_prefs :: "(string \<times> cred_params) list \<Rightarrow> string list" where
  "build_credentials_as_prefs credentials = build_credentials_loop credentials []"

section \<open>\<open>build_alive_test_opt_as_prefs\<close>\<close>

text \<open>
  The lines for an alive test value that has passed \<open>int()\<close>. A test
  \<open>alive_test & FLAG\<close> is true in Python when the result is not 0.
\<close>

definition yes_no :: "bool \<Rightarrow> string" where
  "yes_no b = (if b then ''yes'' else ''no'')"

definition alive_test_prefs :: "int \<Rightarrow> string list" where
  "alive_test_prefs alive_test =
     (if alive_test < 1 \<or> alive_test > 31 then []
      else
        [OID_PING_HOST @ '':1:checkbox:'' @ ''Do a TCP ping|||''
           @ yes_no (alive_test AND ALIVE_TEST_TCP_ACK_SERVICE \<noteq> 0
                     \<or> alive_test AND ALIVE_TEST_TCP_SYN_SERVICE \<noteq> 0),
         OID_PING_HOST @ '':2:checkbox:'' @ ''TCP ping tries also TCP-SYN ping|||''
           @ yes_no (alive_test AND ALIVE_TEST_TCP_SYN_SERVICE \<noteq> 0
                     \<and> alive_test AND ALIVE_TEST_TCP_ACK_SERVICE \<noteq> 0),
         OID_PING_HOST @ '':7:checkbox:'' @ ''TCP ping tries only TCP-SYN ping|||''
           @ yes_no (alive_test AND ALIVE_TEST_TCP_SYN_SERVICE \<noteq> 0
                     \<and> \<not> (alive_test AND ALIVE_TEST_TCP_ACK_SERVICE \<noteq> 0)),
         OID_PING_HOST @ '':3:checkbox:'' @ ''Do an ICMP ping|||''
           @ yes_no (alive_test AND ALIVE_TEST_ICMP \<noteq> 0),
         OID_PING_HOST @ '':4:checkbox:'' @ ''Use ARP|||''
           @ yes_no (alive_test AND ALIVE_TEST_ARP \<noteq> 0),
         OID_PING_HOST @ '':5:checkbox:'' @ ''Mark unrechable Hosts as dead (not scanning)|||''
           @ (if alive_test AND ALIVE_TEST_CONSIDER_ALIVE \<noteq> 0 then ''no'' else ''yes'')]
        @ (if alive_test = ALIVE_TEST_CONSIDER_ALIVE then
             [OID_PING_HOST @ '':1:checkbox:'' @ ''Do a TCP ping|||yes'']
           else []))"

text \<open>
  \<open>target_options\<close> maps option names to the strings the client sent. An empty
  dictionary, a missing \<open>alive_test\<close> and an empty value are all false in the first
  test; a value \<open>int()\<close> rejects returns the empty list from the \<open>except\<close> branch.
\<close>

definition build_alive_test_opt_as_prefs :: "(string \<rightharpoonup> string) \<Rightarrow> string list" where
  "build_alive_test_opt_as_prefs target_options =
     (case target_options ''alive_test'' of
        None \<Rightarrow> []
      | Some v \<Rightarrow>
          if v = [] then []
          else (case py_int v of
                  None \<Rightarrow> []
                | Some alive_test \<Rightarrow> alive_test_prefs alive_test))"

section \<open>The VT catalog and \<open>process_vts\<close>\<close>

text \<open>
  One entry of \<open>self.vts\<close>, with the fields the daemon reads back: \<open>load_vts\<close> passes
  every VT its parameters, its \<open>custom\<close> metadata and a \<open>severities\<close> dictionary. A
  field that \<open>dict.get\<close> may find missing is an option.
\<close>

record vt_param =
  param_type :: string
  param_name :: string

record vt =
  vt_name :: "string option"
  vt_params :: "string \<rightharpoonup> vt_param"
  custom :: "string \<rightharpoonup> string"
  qod_type :: "string option"
  qod :: "string option"
  severities :: "(string \<rightharpoonup> string) option"

type_synonym vts_dict = "(string \<times> vt) list"

text \<open>
  \<open>get_vt_param_type\<close> and \<open>get_vt_param_name\<close>. \<open>self.temp_vts_dict[vtid]\<close> raises
  \<open>KeyError\<close> for an unknown VT; \<open>process_vts\<close> calls both only after it has found
  \<open>vtid\<close> among the keys.
\<close>

definition get_vt_param_type :: "vts_dict \<Rightarrow> string \<Rightarrow> string \<Rightarrow> py_error + string option" where
  "get_vt_param_type temp_vts_dict vtid vt_param_id =
     (case map_of temp_vts_dict vtid of
        None \<Rightarrow> Inl KeyError
      | Some v \<Rightarrow> (case vt_params v vt_param_id of
                    None \<Rightarrow> Inr None
                  | Some p \<Rightarrow> Inr (Some (param_type p))))"

definition get_vt_param_name :: "vts_dict \<Rightarrow> string \<Rightarrow> string \<Rightarrow> py_error + string option" where
  "get_vt_param_name temp_vts_dict vtid vt_param_id =
     (case map_of temp_vts_dict vtid of
        None \<Rightarrow> Inl KeyError
      | Some v \<Rightarrow> (case vt_params v vt_param_id of
                    None \<Rightarrow> Inr None
                  | Some p \<Rightarrow> Inr (Some (param_name p))))"

text \<open>
  \<open>check_param_type\<close> returns \<open>None\<close> for a value of the right type and 1 otherwise.
  Parameter values are strings, so \<open>isinstance(vt_param_value, str)\<close> holds. Whether
  \<open>b64decode\<close> accepts a value is the parameter \<open>b64decode_ok\<close>.
\<close>

definition check_param_type :: "(string \<Rightarrow> bool) \<Rightarrow> string \<Rightarrow> string \<Rightarrow> nat option" where
  "check_param_type b64decode_ok vt_param_value ptype =
     (if ptype \<in> set [''entry'', ''password'', ''radio'', ''sshlogin''] then None
      else if ptype = ''checkbox'' \<and> (vt_param_value = ''0'' \<or> vt_param_value = ''1'') then None
      else if ptype = ''file'' then (if b64decode_ok vt_param_value then None else Some 1)
      else if ptype = ''integer'' then
        (case py_int vt_param_value of None \<Rightarrow> Some 1 | Some _ \<Rightarrow> None)
      else Some 1)"

text \<open>
  \<open>get_vts_in_groups\<close>: the VTs are grouped by \<open>custom.get('family')\<close> in the order of
  the catalog, and each filter \<open>family=value\<close> contributes its group. A filter that does
  not split into exactly two parts at \<open>=\<close> raises \<open>ValueError\<close>.
\<close>

definition families :: "vts_dict \<Rightarrow> string \<Rightarrow> string list" where
  "families temp_vts_dict fam =
     map fst (filter (\<lambda>(oid, v). custom v ''family'' = Some fam) temp_vts_dict)"

fun get_vts_in_groups_loop ::
  "vts_dict \<Rightarrow> string list \<Rightarrow> string list \<Rightarrow> py_error + string list" where
  "get_vts_in_groups_loop temp_vts_dict [] vts_list = Inr vts_list"
| "get_vts_in_groups_loop temp_vts_dict (elem # filters) vts_list =
     (case py_split ''='' elem of
        [key, val] \<Rightarrow>
          get_vts_in_groups_loop temp_vts_dict filters
            (if key = ''family'' \<and> families temp_vts_dict val \<noteq> []
             then vts_list @ families temp_vts_dict val else vts_list)
      | _ \<Rightarrow> Inl ValueError)"

definition get_vts_in_groups :: "vts_dict \<Rightarrow> string list \<Rightarrow> py_error + string list" where
  "get_vts_in_groups temp_vts_dict filters = get_vts_in_groups_loop temp_vts_dict filters []"

text \<open>
  The body of the inner loop of \<open>process_vts\<close>: one parameter of one VT, applied to the
  dictionary \<open>vts_params\<close>. A parameter without type or name, or with a value of the
  wrong type, leaves the dictionary as it is (\<open>continue\<close>).
\<close>

definition process_vt_param ::
  "(string \<Rightarrow> bool) \<Rightarrow> vts_dict \<Rightarrow> string \<Rightarrow> string \<times> string \<Rightarrow>
   (string \<times> string) list \<Rightarrow> py_error + (string \<times> string) list" where
  "process_vt_param b64decode_ok temp_vts_dict vtid p vts_params =
     (let vt_param_id = fst p; vt_param_value = snd p in
      case get_vt_param_type temp_vts_dict vtid vt_param_id of
        Inl e \<Rightarrow> Inl e
      | Inr ptype \<Rightarrow>
     (case get_vt_param_name temp_vts_dict vtid vt_param_id of
        Inl e \<Rightarrow> Inl e
      | Inr pname \<Rightarrow>
          if ptype = None \<or> ptype = Some [] \<or> pname = None \<or> pname = Some [] then Inr vts_params
          else
            (let type_aux = (if vt_param_id = ''0'' then ''integer'' else the ptype) in
             if check_param_type b64decode_ok vt_param_value type_aux \<noteq> None then Inr vts_params
             else
               (case (if type_aux = ''checkbox''
                      then map_option from_bool_to_str (py_int vt_param_value)
                      else Some vt_param_value) of
                  None \<Rightarrow> Inl ValueError
                | Some v \<Rightarrow>
                    Inr (AList.update
                           (vtid @ '':'' @ vt_param_id @ '':'' @ the ptype @ '':'' @ the pname)
                           v vts_params)))))"

fun process_vt_params ::
  "(string \<Rightarrow> bool) \<Rightarrow> vts_dict \<Rightarrow> string \<Rightarrow> (string \<times> string) list \<Rightarrow>
   (string \<times> string) list \<Rightarrow> py_error + (string \<times> string) list" where
  "process_vt_params b64decode_ok temp_vts_dict vtid [] vts_params = Inr vts_params"
| "process_vt_params b64decode_ok temp_vts_dict vtid (p # ps) vts_params =
     (case process_vt_param b64decode_ok temp_vts_dict vtid p vts_params of
        Inl e \<Rightarrow> Inl e
      | Inr vts_params' \<Rightarrow> process_vt_params b64decode_ok temp_vts_dict vtid ps vts_params')"

text \<open>
  The outer loop over \<open>vts.items()\<close>, after \<open>vt_groups\<close> has been popped: a VT the
  catalog does not know is skipped, any other is appended to \<open>vts_list\<close> and its
  parameters are processed.
\<close>

fun process_vts_loop ::
  "(string \<Rightarrow> bool) \<Rightarrow> vts_dict \<Rightarrow> (string \<times> (string \<times> string) list) list \<Rightarrow>
   string list \<times> (string \<times> string) list \<Rightarrow> py_error + string list \<times> (string \<times> string) list" where
  "process_vts_loop b64decode_ok temp_vts_dict [] acc = Inr acc"
| "process_vts_loop b64decode_ok temp_vts_dict ((vtid, params) # rest) acc =
     (if vtid \<notin> set (map fst temp_vts_dict) then
        process_vts_loop b64decode_ok temp_vts_dict rest acc
      else
        (case process_vt_params b64decode_ok temp_vts_dict vtid params (snd acc) of
           Inl e \<Rightarrow> Inl e
         | Inr vts_params' \<Rightarrow>
             process_vts_loop b64decode_ok temp_vts_dict rest (fst acc @ [vtid], vts_params')))"

text \<open>
  The client's VT selection: the filters stored under \<open>vt_groups\<close> and, in order, the
  selected VTs with their parameter values.
\<close>

record vts_selection =
  vt_groups :: "string list"
  single_vts :: "(string \<times> (string \<times> string) list) list"

definition process_vts ::
  "(string \<Rightarrow> bool) \<Rightarrow> vts_dict \<Rightarrow> vts_selection \<Rightarrow>
   py_error + string list \<times> (string \<times> string) list" where
  "process_vts b64decode_ok temp_vts_dict vts =
     (case (if vt_groups vts \<noteq> [] then get_vts_in_groups temp_vts_dict (vt_groups vts)
            else Inr []) of
        Inl e \<Rightarrow> Inl e
      | Inr vts_list \<Rightarrow>
          process_vts_loop b64decode_ok temp_vts_dict (single_vts vts) (vts_list, []))"

section \<open>The feed: \<open>feed_is_outdated\<close> and \<open>check_feed\<close>\<close>

text \<open>
  The loop over the lines of \<open>plugin_feed_info.inc\<close>. \<open>date\<close> starts as the integer 0
  (\<open>None\<close> here) and becomes the text after \<open>' = '\<close> of the last line that contains
  \<open>PLUGIN_SET\<close>, without \<open>;\<close> and \<open>"\<close>. Such a line without \<open>' = '\<close> raises
  \<open>IndexError\<close>.
\<close>

fun read_plugin_set :: "string list \<Rightarrow> string option \<Rightarrow> py_error + string option" where
  "read_plugin_set [] date = Inr date"
| "read_plugin_set (line # fcontent) date =
     (if py_in ''PLUGIN_SET'' line then
        (case py_split '' = '' line of
           _ # d # _ \<Rightarrow>
             read_plugin_set fcontent
               (Some (py_remove_char CHR 0x22 (py_remove_char CHR '';'' d)))
         | _ \<Rightarrow> Inl IndexError)
      else read_plugin_set fcontent date)"

text \<open>\<open>int(date)\<close>, for the integer 0 and for a string.\<close>

definition int_of_date :: "string option \<Rightarrow> int option" where
  "int_of_date date = (case date of None \<Rightarrow> Some 0 | Some d \<Rightarrow> py_int d)"

text \<open>
  \<open>feed_is_outdated\<close>. \<open>plugins_folder\<close> is \<open>scan_only_params.get('plugins_folder')\<close>;
  \<open>feed_info_file\<close> is the content of the marker file, \<open>None\<close> when it does not exist
  (the source then runs \<open>parse_param\<close> again before it returns \<open>None\<close>). The result is
  Python's \<open>Optional[bool]\<close>. In the last test \<open>int(current_feed)\<close> is evaluated first.
\<close>

definition feed_is_outdated ::
  "string option \<Rightarrow> string list option \<Rightarrow> string \<Rightarrow> py_error + bool option" where
  "feed_is_outdated plugins_folder feed_info_file current_feed =
     (if plugins_folder = None \<or> plugins_folder = Some [] then Inl OspdOpenvasError
      else
        (case feed_info_file of
           None \<Rightarrow> Inr None
         | Some fcontent \<Rightarrow>
             (case read_plugin_set fcontent None of
                Inl e \<Rightarrow> Inl e
              | Inr date \<Rightarrow>
                  (case py_int current_feed of
                     None \<Rightarrow> Inl ValueError
                   | Some cur \<Rightarrow>
                       (case int_of_date date of
                          None \<Rightarrow> Inl ValueError
                        | Some d \<Rightarrow> Inr (Some (cur < d \<or> d = 0)))))))"

text \<open>
  The part of the daemon \<open>check_feed\<close> changes, and what it reads from outside: the
  plugins folder and marker file, the feed version in the cache before and after
  \<open>openvas --update-vt-info\<close>, whether a scan process is alive, and whether
  \<open>load_vts\<close> runs to its end (where it stores the version and clears the flag; on a
  loading error it returns early and changes neither).
\<close>

record feed_state =
  pending_feed :: "bool option"
  vts_version :: "string option"
  vts_loaded :: bool

record feed_env =
  plugins_folder :: "string option"
  feed_info_file :: "string list option"
  feed_version :: "string option"
  feed_version_after_update :: "string option"
  running_scan :: bool
  load_vts_ok :: bool

definition load_vts :: "string option \<Rightarrow> bool \<Rightarrow> feed_state \<Rightarrow> feed_state" where
  "load_vts version ok st =
     (if ok then st\<lparr>pending_feed := Some False, vts_version := version, vts_loaded := True\<rparr>
      else st)"

text \<open>
  \<open>check_feed\<close>. A feed version is false in a test when it is \<open>None\<close> or empty. The
  first test returns with the flag set when \<open>feed_is_outdated\<close> gives \<open>None\<close>; the
  second one refreshes the cache when there is no version or the feed is outdated.
\<close>

definition truthy :: "string option \<Rightarrow> bool" where
  "truthy v = (v \<noteq> None \<and> v \<noteq> Some [])"

definition check_feed :: "feed_env \<Rightarrow> feed_state \<Rightarrow> py_error + feed_state" where
  "check_feed env st =
     (let current_feed = feed_version env;
          outdated = (if truthy current_feed
                      then feed_is_outdated (plugins_folder env) (feed_info_file env)
                             (the current_feed)
                      else Inr None)
      in
      case outdated of
        Inl e \<Rightarrow> Inl e
      | Inr od \<Rightarrow>
          if truthy current_feed \<and> od = None then Inr (st\<lparr>pending_feed := Some True\<rparr>)
          else
            (let refresh = (\<not> truthy current_feed \<or> od = Some True);
                 st1 = (if refresh then st\<lparr>pending_feed := Some True\<rparr> else st);
                 version = (if refresh then feed_version_after_update env else feed_version env);
                 pending = (if pending_feed st1 = Some True then True
                            else vts_version st1 \<noteq> version)
             in
               if running_scan env \<and> pending then
                 Inr (if pending_feed st1 \<noteq> Some True then st1\<lparr>pending_feed := Some True\<rparr>
                      else st1)
               else if \<not> running_scan env \<and> pending then
                 Inr (load_vts version (load_vts_ok env) (st1\<lparr>vts_loaded := False\<rparr>))
               else Inr st1))"

section \<open>The result translator: \<open>get_severity_score\<close> and \<open>get_openvas_result\<close>\<close>

text \<open>
  What the daemon reports to the client. The severity of an alarm is Python's
  \<open>Optional[float]\<close>; its numeric type is left open as \<open>'sev\<close>. A name is an option
  because \<open>vt_aux.get('name')\<close> may be \<open>None\<close>.
\<close>

datatype 'sev scan_event =
    AddScanError string string "string option" string string
  | AddScanLog string string "string option" string string string string
  | AddScanHostDetail string string "string option" string
  | AddScanAlarm string string "string option" string string string "'sev option" string
  | AddHostTimestamp string string string
  | UpdateProgress string string string
  | SetScanHostFinished string string

text \<open>
  \<open>get_severity_score\<close>. The CVSS computation of the ospd library is the parameter
  \<open>cvss_base_v2_value\<close>, which may raise on a vector it cannot parse. A VT without a
  \<open>severities\<close> entry raises \<open>KeyError\<close>.
\<close>

definition get_severity_score ::
  "(string \<Rightarrow> py_error + 'sev option) \<Rightarrow> vt option \<Rightarrow> py_error + 'sev option" where
  "get_severity_score cvss_base_v2_value vt_aux =
     (case vt_aux of
        None \<Rightarrow> Inr None
      | Some v \<Rightarrow>
          (case severities v of
             None \<Rightarrow> Inl KeyError
           | Some sev \<Rightarrow>
               (let severity_type = sev ''severity_type'';
                    severity_vector = sev ''severity_base_vector''
                in if severity_type = Some ''cvss_base_v2'' \<and> truthy severity_vector
                   then cvss_base_v2_value (the severity_vector)
                   else Inr None)))"

text \<open>\<open>xml.sax.saxutils.escape\<close>: \<open>&\<close>, \<open><\<close> and \<open>>\<close> become entities.\<close>

fun escape :: "string \<Rightarrow> string" where
  "escape [] = []"
| "escape (c # cs) =
     (if c = CHR ''&'' then ''&amp;'' @ escape cs
      else if c = CHR ''<'' then ''&lt;'' @ escape cs
      else if c = CHR ''>'' then ''&gt;'' @ escape cs
      else c # escape cs)"

text \<open>
  The body of the loop of \<open>get_openvas_result\<close>: the events of one record. A record
  with fewer than five fields raises \<open>IndexError\<close>; a QoD type missing from
  \<open>QOD_TYPES\<close> raises \<open>KeyError\<close>.
\<close>

record 'sev translator =
  vts :: vts_dict
  QOD_TYPES :: "string \<rightharpoonup> string"
  cvss_base_v2_value :: "string \<Rightarrow> py_error + 'sev option"

definition result_events ::
  "'sev translator \<Rightarrow> string \<Rightarrow> string \<Rightarrow> py_error + 'sev scan_event list" where
  "result_events tr current_host res =
     (case py_split ''|||'' res of
        m0 # m1 # m2 # m3 # m4 # _ \<Rightarrow>
          (let roid = py_strip m3;
               rhostname = (if m1 \<noteq> [] then py_strip m1 else []);
               host_is_dead = py_in ''Host dead'' m4;
               vt_aux = (if roid \<noteq> [] \<and> \<not> host_is_dead then map_of (vts tr) roid else None)
           in
           case (case vt_aux of
                   None \<Rightarrow> Inr []
                 | Some v \<Rightarrow>
                     if truthy (qod_type v) then
                       (case QOD_TYPES tr (the (qod_type v)) of
                          None \<Rightarrow> Inl KeyError
                        | Some q \<Rightarrow> Inr q)
                     else if truthy (qod v) then Inr (the (qod v))
                     else Inr []) of
             Inl e \<Rightarrow> Inl e
           | Inr rqod \<Rightarrow>
               (let rname0 = (case vt_aux of None \<Rightarrow> Some [] | Some v \<Rightarrow> vt_name v);
                    rname = (if truthy rname0 then map_option escape rname0 else rname0)
                in
                case (if m0 = ''ALARM''
                      then get_severity_score (cvss_base_v2_value tr) vt_aux
                      else Inr None) of
                  Inl e \<Rightarrow> Inl e
                | Inr rseverity \<Rightarrow>
                    Inr ((if m0 = ''ERRMSG''
                          then [AddScanError current_host rhostname rname m4 m2] else [])
                       @ (if m0 = ''LOG''
                          then [AddScanLog current_host rhostname rname m4 m2 rqod roid] else [])
                       @ (if m0 = ''HOST_DETAIL''
                          then [AddScanHostDetail current_host rhostname rname m4] else [])
                       @ (if m0 = ''ALARM''
                          then [AddScanAlarm current_host rhostname rname m4 m2 roid rseverity rqod]
                          else []))))
      | _ \<Rightarrow> Inl IndexError)"

section \<open>The keyed store\<close>

text \<open>
  The store class \<open>OpenvasDB\<close> lives in \<open>db.py\<close>, which is outside the
  verified sources; its operations follow the contract the specification gives for the keyed store.
  A partition maps a key to its ordered values, oldest first; the store maps an index
  in use to its partition, and a free index to \<open>None\<close>.
\<close>

type_synonym kb = "string \<rightharpoonup> string list"
type_synonym store = "nat \<rightharpoonup> kb"

definition kb_of :: "store \<Rightarrow> nat \<Rightarrow> kb" where
  "kb_of s i = (case s i of None \<Rightarrow> Map.empty | Some k \<Rightarrow> k)"

definition kb_values :: "store \<Rightarrow> nat \<Rightarrow> string \<Rightarrow> string list" where
  "kb_values s i key = (case kb_of s i key of None \<Rightarrow> [] | Some vs \<Rightarrow> vs)"

text \<open>Modelled from the spec: \<open>allocate_index\<close> (\<open>kb_new\<close> of the missing \<open>db.py\<close>)
  returns an index not currently in use, here the least one, and fails when the bounded
  index space is full.\<close>

definition kb_new :: "nat \<Rightarrow> store \<Rightarrow> nat option" where
  "kb_new max_dbindex s = find (\<lambda>i. s i = None) [0..<max_dbindex]"

text \<open>Modelled from the spec: \<open>get(key)\<close> (\<open>get_single_item\<close> of the missing \<open>db.py\<close>)
  gives the value under a key or \<open>None\<close>; a released index reads as no data.\<close>

definition get_single_item :: "store \<Rightarrow> nat \<Rightarrow> string \<Rightarrow> string option" where
  "get_single_item s i key = (case kb_values s i key of [] \<Rightarrow> None | v # _ \<Rightarrow> Some v)"

text \<open>Modelled from the spec: \<open>set(key, value)\<close> (\<open>set_single_item\<close> of the missing
  \<open>db.py\<close>) overwrites.\<close>

definition set_single_item :: "store \<Rightarrow> nat \<Rightarrow> string \<Rightarrow> string list \<Rightarrow> store" where
  "set_single_item s i key vs = s(i \<mapsto> (kb_of s i)(key \<mapsto> vs))"

text \<open>Modelled from the spec: \<open>append(key, value)\<close> (\<open>add_single_item\<close> of the missing
  \<open>db.py\<close>) pushes onto the ordered list without removing existing entries.\<close>

definition add_single_item :: "store \<Rightarrow> nat \<Rightarrow> string \<Rightarrow> string list \<Rightarrow> store" where
  "add_single_item s i key vs = s(i \<mapsto> (kb_of s i)(key \<mapsto> kb_values s i key @ vs))"

text \<open>Modelled from the spec: \<open>enumerate(key)\<close> (\<open>get_list_item\<close> of the missing
  \<open>db.py\<close>) gives the ordered sequence of values.\<close>

definition get_list_item :: "store \<Rightarrow> nat \<Rightarrow> string \<Rightarrow> string list" where
  "get_list_item s i key = kb_values s i key"

text \<open>Modelled from the spec: \<open>remove_list_item\<close> of the missing \<open>db.py\<close> takes a value
  out of the list under a key, as its name says; the specification does not describe it
  further.\<close>

definition remove_list_item :: "store \<Rightarrow> nat \<Rightarrow> string \<Rightarrow> string \<Rightarrow> store" where
  "remove_list_item s i key v =
     (case s i of
        None \<Rightarrow> s
      | Some k \<Rightarrow> s(i \<mapsto> k(key \<mapsto> filter (\<lambda>x. x \<noteq> v) (kb_values s i key))))"

text \<open>Modelled from the spec: \<open>release(index)\<close> (\<open>release_db\<close> of the missing \<open>db.py\<close>)
  clears all keys of the partition and returns it to the free pool.\<close>

definition release_db :: "store \<Rightarrow> nat \<Rightarrow> store" where
  "release_db s i = s(i := None)"

text \<open>Modelled from the spec: \<open>pop(key)\<close> (\<open>get_result\<close> and \<open>get_status\<close> of the
  missing \<open>db.py\<close>) removes and returns the oldest value still present. The queues of
  result and status lines and the host's address are kept under the keys below; the
  specification names the two timestamp keys.\<close>

definition RESULTS_KEY :: string where "RESULTS_KEY = ''internal/results''"
definition STATUS_KEY :: string where "STATUS_KEY = ''internal/status''"
definition HOST_IP_KEY :: string where "HOST_IP_KEY = ''internal/ip''"

definition set_queue :: "store \<Rightarrow> nat \<Rightarrow> string \<Rightarrow> string list \<Rightarrow> store" where
  "set_queue s i key q = (case s i of None \<Rightarrow> s | Some k \<Rightarrow> s(i \<mapsto> k(key \<mapsto> q)))"

section \<open>The scan orchestrator: harvesting\<close>

text \<open>
  A loop \<open>res = pop(); while res: ...; res = pop()\<close> over a queue: it handles the
  values up to the first empty one, which it removes too, and leaves the rest.
\<close>

fun popped :: "string list \<Rightarrow> string list" where
  "popped [] = []"
| "popped (res # q) = (if res = [] then [] else res # popped q)"

fun left_in_queue :: "string list \<Rightarrow> string list" where
  "left_in_queue [] = []"
| "left_in_queue (res # q) = (if res = [] then q else left_in_queue q)"

fun results_loop ::
  "'sev translator \<Rightarrow> string \<Rightarrow> string list \<Rightarrow> py_error + 'sev scan_event list" where
  "results_loop tr current_host [] = Inr []"
| "results_loop tr current_host (res # rs) =
     (case result_events tr current_host res of
        Inl e \<Rightarrow> Inl e
      | Inr evs \<Rightarrow>
          (case results_loop tr current_host rs of
             Inl e \<Rightarrow> Inl e
           | Inr evs' \<Rightarrow> Inr (evs @ evs')))"

text \<open>
  The state of a run of \<open>exec_scan\<close>: the store, the events reported so far, and the
  host indices harvested so far (kept for the statements about the polling loop).
\<close>

record 'sev scan_state =
  store :: store
  events :: "'sev scan_event list"
  harvested :: "nat list"

text \<open>\<open>get_openvas_result\<close> on the partition \<open>i\<close>.\<close>

definition get_openvas_result ::
  "'sev translator \<Rightarrow> nat \<Rightarrow> string \<Rightarrow> 'sev scan_state \<Rightarrow> py_error + 'sev scan_state" where
  "get_openvas_result tr i current_host st =
     (let q = kb_values (store st) i RESULTS_KEY in
      case results_loop tr current_host (popped q) of
        Inl e \<Rightarrow> Inl e
      | Inr evs \<Rightarrow>
          Inr (st\<lparr>store := set_queue (store st) i RESULTS_KEY (left_in_queue q),
                  events := events st @ evs\<rparr>))"

text \<open>
  \<open>get_openvas_status\<close> on the partition \<open>i\<close>: every status line goes to
  \<open>update_progress\<close>, whose floating point percentage is not modelled; the event keeps
  the line.
\<close>

definition get_openvas_status ::
  "nat \<Rightarrow> string \<Rightarrow> string \<Rightarrow> 'sev scan_state \<Rightarrow> 'sev scan_state" where
  "get_openvas_status i target current_host st =
     (let q = kb_values (store st) i STATUS_KEY in
      st\<lparr>store := set_queue (store st) i STATUS_KEY (left_in_queue q),
         events := events st @ map (UpdateProgress target current_host) (popped q)\<rparr>)"

text \<open>\<open>get_openvas_timestamp_scan_host\<close> on the partition \<open>i\<close>: the end time if there
  is one, else the start time if there is one.\<close>

definition get_openvas_timestamp_scan_host ::
  "nat \<Rightarrow> string \<Rightarrow> 'sev scan_state \<Rightarrow> 'sev scan_state" where
  "get_openvas_timestamp_scan_host i target st =
     (if truthy (get_single_item (store st) i ''internal/HOST_END'') then
        st\<lparr>events := events st
              @ [AddHostTimestamp target ''HOST_END''
                   (the (get_single_item (store st) i ''internal/HOST_END''))]\<rparr>
      else if truthy (get_single_item (store st) i ''internal/HOST_START'') then
        st\<lparr>events := events st
              @ [AddHostTimestamp target ''HOST_START''
                   (the (get_single_item (store st) i ''internal/HOST_START''))]\<rparr>
      else st)"

text \<open>\<open>host_is_finished\<close> reads the status in the selected host partition;
  \<open>scan_is_stopped\<close> and \<open>target_is_finished\<close> connect to the main index. In
  \<open>target_is_finished\<close> the engine's id is read back from the client's id, and a
  missing one is formatted as \<open>None\<close> into the key.\<close>

definition host_is_finished :: "store \<Rightarrow> nat \<Rightarrow> string \<Rightarrow> bool" where
  "host_is_finished s i openvas_scan_id =
     (get_single_item s i (''internal/'' @ openvas_scan_id) = Some ''finished'')"

definition scan_is_stopped :: "store \<Rightarrow> nat \<Rightarrow> string \<Rightarrow> bool" where
  "scan_is_stopped s main_kbindex openvas_scan_id =
     (get_single_item s main_kbindex (''internal/'' @ openvas_scan_id) = Some ''stop_all'')"

definition target_is_finished :: "store \<Rightarrow> nat \<Rightarrow> string \<Rightarrow> bool" where
  "target_is_finished s main_kbindex scan_id =
     (let openvas_id = (case get_single_item s main_kbindex
                               (''internal/'' @ scan_id @ ''/globalscanid'') of
                          None \<Rightarrow> ''None'' | Some x \<Rightarrow> x);
          status = get_single_item s main_kbindex (''internal/'' @ openvas_id)
      in status = Some ''finished'' \<or> status = None)"

section \<open>The scan orchestrator: the polling loop\<close>

text \<open>
  The daemon as \<open>exec_scan\<close> reads it: the catalog and the tables of the result
  translator, the size of the store's index space, the base64 test used by
  \<open>check_param_type\<close>, and whether \<open>self.pending_feed\<close> is true.
\<close>

record 'sev daemon = "'sev translator" +
  max_dbindex :: nat
  b64_ok :: "string \<Rightarrow> bool"
  feed_pending :: bool

text \<open>
  The body of \<open>for i in list(dbs)\<close>, for the entry \<open>i\<close> of \<open>internal/dbindex\<close>. The
  entry is compared with the main index as a number; an entry that is no number cannot
  be selected. The second component of the state is \<open>no_id_found\<close>. A finished host is
  taken out of the registry of the main index and its partition is released.
\<close>

definition harvest_host ::
  "'sev daemon \<Rightarrow> string \<Rightarrow> string \<Rightarrow> string \<Rightarrow> nat \<Rightarrow> string \<Rightarrow>
   'sev scan_state \<times> bool \<Rightarrow> py_error + 'sev scan_state \<times> bool" where
  "harvest_host d scan_id target openvas_scan_id main_kbindex entry stn =
     (case py_nat entry of
        None \<Rightarrow> Inl ValueError
      | Some i \<Rightarrow>
          if i = main_kbindex then Inr stn
          else
            (let st = fst stn; id_aux = get_single_item (store st) i ''internal/scan_id'' in
             if \<not> truthy id_aux then Inr stn
             else if id_aux \<noteq> Some openvas_scan_id then Inr stn
             else
               (let current_host =
                      (case get_single_item (store st) i HOST_IP_KEY of
                         None \<Rightarrow> [] | Some h \<Rightarrow> h)
                in
                case get_openvas_result (translator.truncate d) i current_host
                       (st\<lparr>harvested := harvested st @ [i]\<rparr>) of
                  Inl e \<Rightarrow> Inl e
                | Inr st1 \<Rightarrow>
                    (let st2 = get_openvas_status i target current_host st1;
                         st3 = get_openvas_timestamp_scan_host i current_host st2
                     in
                     if host_is_finished (store st3) i openvas_scan_id then
                       (let st4 = st3\<lparr>events := events st3
                                         @ [SetScanHostFinished target current_host]\<rparr>;
                            st5 = get_openvas_status i target current_host st4;
                            st6 = get_openvas_timestamp_scan_host i current_host st5
                        in Inr (st6\<lparr>store :=
                                      release_db
                                        (remove_list_item (store st6) main_kbindex
                                           ''internal/dbindex'' entry) i\<rparr>,
                                False))
                     else Inr (st3, False)))))"

fun harvest_hosts ::
  "'sev daemon \<Rightarrow> string \<Rightarrow> string \<Rightarrow> string \<Rightarrow> nat \<Rightarrow> string list \<Rightarrow>
   'sev scan_state \<times> bool \<Rightarrow> py_error + 'sev scan_state \<times> bool" where
  "harvest_hosts d scan_id target openvas_scan_id main_kbindex [] stn = Inr stn"
| "harvest_hosts d scan_id target openvas_scan_id main_kbindex (entry # dbs) stn =
     (case harvest_host d scan_id target openvas_scan_id main_kbindex entry stn of
        Inl e \<Rightarrow> Inl e
      | Inr stn' \<Rightarrow> harvest_hosts d scan_id target openvas_scan_id main_kbindex dbs stn')"

text \<open>
  One pass through the body of \<open>while True\<close>, after the sleep: the client's stop is
  checked first, then the main index and the registered host indices are harvested, and
  the loop is left when \<open>no_id_found\<close> has stayed true and the target is finished.
  Otherwise the next pass starts with \<open>no_id_found = True\<close>.
\<close>

datatype 'sev tick_result =
    TickStopped "'sev scan_state"
  | TickRaise py_error "'sev scan_state"
  | TickBreak "'sev scan_state"
  | TickContinue "'sev scan_state"

definition poll_tick ::
  "'sev daemon \<Rightarrow> string \<Rightarrow> string \<Rightarrow> string \<Rightarrow> nat \<Rightarrow> bool \<Rightarrow>
   'sev scan_state \<Rightarrow> 'sev tick_result" where
  "poll_tick d scan_id target openvas_scan_id main_kbindex no_id_found st =
     (if scan_is_stopped (store st) main_kbindex openvas_scan_id then TickStopped st
      else
        (case get_openvas_result (translator.truncate d) main_kbindex [] st of
           Inl e \<Rightarrow> TickRaise e st
         | Inr st1 \<Rightarrow>
             (case harvest_hosts d scan_id target openvas_scan_id main_kbindex
                     (get_list_item (store st1) main_kbindex ''internal/dbindex'')
                     (st1, no_id_found) of
                Inl e \<Rightarrow> TickRaise e st1
              | Inr (st2, no_id_found') \<Rightarrow>
                  if no_id_found' \<and> target_is_finished (store st2) main_kbindex scan_id
                  then TickBreak st2
                  else TickContinue st2)))"

text \<open>
  What \<open>exec_scan\<close> returns: Python's \<open>2\<close>, \<open>1\<close>, \<open>False\<close>, the \<open>None\<close> of falling off
  the end, or an exception that leaves the function.
\<close>

datatype scan_ret = ReturnInt int | ReturnFalse | ReturnNone | Raise py_error

text \<open>
  The engine is another process that writes into the same store. Its activity during
  one sleep of \<open>exec_scan\<close> is a step: what it does to the store, and what
  \<open>result.poll()\<close> gives afterwards. The loops consume one step per pass; a run that
  is still polling when the steps are used up has not returned, which is \<open>None\<close>.
\<close>

record engine_step =
  act :: "store \<Rightarrow> store"
  exit_code :: "int option"

text \<open>
  The loop \<open>while True\<close> with the release of the main index that follows its
  \<open>break\<close>. For the statements about the loop, the result also lists what each pass
  saw: the host indices it harvested, and what \<open>target_is_finished\<close> reads at its end.
\<close>

type_synonym tick_obs = "nat list \<times> bool"

definition observe :: "string \<Rightarrow> nat \<Rightarrow> 'sev scan_state \<Rightarrow> tick_obs" where
  "observe scan_id main_kbindex st =
     (harvested st, target_is_finished (store st) main_kbindex scan_id)"

fun poll_loop ::
  "'sev daemon \<Rightarrow> string \<Rightarrow> string \<Rightarrow> string \<Rightarrow> nat \<Rightarrow> engine_step list \<Rightarrow> bool \<Rightarrow>
   'sev scan_state \<Rightarrow> (scan_ret \<times> 'sev scan_state \<times> tick_obs list) option" where
  "poll_loop d scan_id target openvas_scan_id main_kbindex [] no_id_found st = None"
| "poll_loop d scan_id target openvas_scan_id main_kbindex (e # es) no_id_found st =
     (let st0 = st\<lparr>store := act e (store st), harvested := []\<rparr> in
      case poll_tick d scan_id target openvas_scan_id main_kbindex no_id_found st0 of
        TickStopped st' \<Rightarrow> Some (ReturnInt 1, st', [observe scan_id main_kbindex st'])
      | TickRaise err st' \<Rightarrow> Some (Raise err, st', [observe scan_id main_kbindex st'])
      | TickBreak st' \<Rightarrow>
          Some (ReturnNone, st'\<lparr>store := release_db (store st') main_kbindex\<rparr>,
                [observe scan_id main_kbindex st'])
      | TickContinue st' \<Rightarrow>
          (case poll_loop d scan_id target openvas_scan_id main_kbindex es True st' of
             None \<Rightarrow> None
           | Some (r, st'', obs) \<Rightarrow> Some (r, st'', observe scan_id main_kbindex st' # obs)))"

section \<open>\<open>stop_scan_cleanup\<close>\<close>

text \<open>
  What \<open>stop_scan_cleanup\<close> and the launch read from the operating system: for a process
  id, how many more probes by \<open>psutil.Process\<close> still find the process (\<open>Some 0\<close>: it
  is gone, \<open>None\<close>: it never goes away), and whether the stop command can be started.
\<close>

record os_env =
  proc_life :: "int \<Rightarrow> nat option"
  stop_cmd_ok :: bool

datatype cleanup_ret = CleanupNone | CleanupFalse | CleanupRaise py_error

text \<open>The inner loop: every partition that holds a status of the scan is released.\<close>

fun release_host_kbs :: "string \<Rightarrow> nat list \<Rightarrow> store \<Rightarrow> store" where
  "release_host_kbs openvas_id [] s = s"
| "release_host_kbs openvas_id (host_kb # ks) s =
     release_host_kbs openvas_id ks
       (if truthy (get_single_item s host_kb (''internal/'' @ openvas_id))
        then release_db s host_kb else s)"

text \<open>
  The loop over all indices. In a partition that maps the client's scan id to an engine
  scan id, the status is set to \<open>stop_all\<close> and the engine's process is looked up: a
  missing pid (\<open>TypeError\<close>) or a process already gone leave \<open>parent\<close> empty; otherwise
  the stop command is started (\<open>return False\<close> when that fails) and the process is
  probed until it is gone, which never ends for a process that stays (\<open>None\<close>). Then
  the partition and the host partitions of the scan are released.
\<close>

fun stop_scan_cleanup_loop ::
  "os_env \<Rightarrow> nat \<Rightarrow> string \<Rightarrow> nat list \<Rightarrow> store \<Rightarrow> (cleanup_ret \<times> store) option" where
  "stop_scan_cleanup_loop os max_db global_scan_id [] s = Some (CleanupNone, s)"
| "stop_scan_cleanup_loop os max_db global_scan_id (current_kbi # ks) s =
     (let scan_id = get_single_item s current_kbi
                      (''internal/'' @ global_scan_id @ ''/globalscanid'')
      in
      if \<not> truthy scan_id then stop_scan_cleanup_loop os max_db global_scan_id ks s
      else
        (let s1 = set_single_item s current_kbi (''internal/'' @ the scan_id) [''stop_all''];
             released = release_host_kbs (the scan_id) [0..<max_db]
                          (release_db s1 current_kbi)
         in
         case get_single_item s1 current_kbi ''internal/ovas_pid'' of
           None \<Rightarrow> stop_scan_cleanup_loop os max_db global_scan_id ks released
         | Some ovas_pid \<Rightarrow>
             (case py_int ovas_pid of
                None \<Rightarrow> Some (CleanupRaise ValueError, s1)
              | Some pid \<Rightarrow>
                  if pid < 0 then Some (CleanupRaise ValueError, s1)
                  else if proc_life os pid = Some 0 then
                    stop_scan_cleanup_loop os max_db global_scan_id ks released
                  else if \<not> stop_cmd_ok os then Some (CleanupFalse, s1)
                  else if proc_life os pid = None then None
                  else stop_scan_cleanup_loop os max_db global_scan_id ks released)))"

definition stop_scan_cleanup ::
  "os_env \<Rightarrow> nat \<Rightarrow> string \<Rightarrow> store \<Rightarrow> (cleanup_ret \<times> store) option" where
  "stop_scan_cleanup os max_db global_scan_id s =
     stop_scan_cleanup_loop os max_db global_scan_id [0..<max_db] s"

section \<open>\<open>exec_scan\<close>\<close>

text \<open>
  The value of a scan option is an integer or a string. \<open>_from_bool_to_str\<close> compares
  it with the integer 1, so a string is rendered as \<open>no\<close>.
\<close>

datatype pyval = PInt int | PStr string

definition py_str :: "pyval \<Rightarrow> string" where
  "py_str v = (case v of PInt i \<Rightarrow> str_of_int i | PStr s \<Rightarrow> s)"

definition from_bool_to_str_val :: "pyval \<Rightarrow> string" where
  "from_bool_to_str_val v = (case v of PInt i \<Rightarrow> from_bool_to_str i | PStr _ \<Rightarrow> ''no'')"

text \<open>The \<open>type\<close> entries of \<open>OSPD_PARAMS\<close>.\<close>

definition OSPD_PARAMS_type :: "(string \<times> string) list" where
  "OSPD_PARAMS_type =
     [(''auto_enable_dependencies'', ''boolean''), (''cgi_path'', ''string''),
      (''checks_read_timeout'', ''integer''), (''drop_privileges'', ''boolean''),
      (''network_scan'', ''boolean''), (''non_simult_ports'', ''string''),
      (''open_sock_max_attempts'', ''integer''), (''timeout_retry'', ''integer''),
      (''optimize_test'', ''integer''), (''plugins_timeout'', ''integer''),
      (''report_host_details'', ''boolean''), (''safe_checks'', ''boolean''),
      (''scanner_plugins_timeout'', ''integer''), (''time_between_request'', ''integer''),
      (''unscanned_closed'', ''boolean''), (''unscanned_closed_udp'', ''boolean''),
      (''expand_vhosts'', ''boolean''), (''test_empty_vhost'', ''boolean'')]"

text \<open>
  What \<open>exec_scan\<close> gets from the ospd base class for a scan and a target: the port
  list, the options, the hosts to exclude (empty when there are none), the hosts a
  resumed scan has finished, the credentials, the VT selection (\<open>None\<close> for the empty
  string of \<open>get_scan_vts\<close>) and the target options.
\<close>

record scan_request =
  rq_scan_id :: string
  rq_target :: string
  rq_ports :: string
  rq_options :: "(string \<times> pyval) list"
  rq_exclude_hosts :: string
  rq_finished_hosts :: "string list"
  rq_credentials :: "(string \<times> cred_params) list"
  rq_vts :: "vts_selection option"
  rq_target_options :: "string \<rightharpoonup> string"

text \<open>The explicit exclusions and the finished hosts go into \<open>options['exclude_hosts']\<close>.\<close>

definition merge_exclude_hosts ::
  "(string \<times> pyval) list \<Rightarrow> string \<Rightarrow> string list \<Rightarrow> (string \<times> pyval) list" where
  "merge_exclude_hosts options exclude_hosts finished_hosts =
     (let options1 = (if exclude_hosts \<noteq> []
                      then AList.update ''exclude_hosts'' (PStr exclude_hosts) options
                      else options)
      in
      if finished_hosts \<noteq> [] then
        (if exclude_hosts \<noteq> [] then
           AList.update ''exclude_hosts''
             (PStr (exclude_hosts @ '','' @ py_join '','' finished_hosts)) options1
         else AList.update ''exclude_hosts'' (PStr (py_join '','' finished_hosts)) options1)
      else options1)"

text \<open>The loop \<open>for key, value in options.items()\<close> that fills \<open>prefs_val\<close>.\<close>

definition scan_prefs :: "(string \<times> pyval) list \<Rightarrow> string list" where
  "scan_prefs options =
     map (\<lambda>(key, val).
            key @ ''|||''
            @ (if map_of OSPD_PARAMS_type key = Some ''boolean''
               then from_bool_to_str_val val else py_str val))
         options"

text \<open>
  The credentials: the lines to add to the preferences, and whether the scan must not
  be launched. An empty dictionary of credentials is skipped; a non-empty one that
  gives no line is reported as malformed.
\<close>

definition set_credentials :: "(string \<times> cred_params) list \<Rightarrow> string list \<times> bool" where
  "set_credentials credentials =
     (if credentials \<noteq> [] then
        (let cred_prefs = build_credentials_as_prefs credentials in
         if cred_prefs \<noteq> [] then (cred_prefs, False) else ([], True))
      else ([], False))"

text \<open>
  The alive test lines overwrite the VT parameters of the same key: each line is split
  at \<open>|||\<close> into key and value, which raises \<open>ValueError\<close> for any other number of
  parts.
\<close>

fun merge_alive_test ::
  "string list \<Rightarrow> (string \<times> string) list \<Rightarrow> py_error + (string \<times> string) list" where
  "merge_alive_test [] nvts_params = Inr nvts_params"
| "merge_alive_test (elem # alive_test_opt) nvts_params =
     (case py_split ''|||'' elem of
        [key, val] \<Rightarrow> merge_alive_test alive_test_opt (AList.update key val nvts_params)
      | _ \<Rightarrow> Inl ValueError)"

text \<open>
  The plugins: the \<open>plugin_set\<close> line followed by one line for each VT parameter, and
  whether the scan must not be launched because there is no VT selection. An empty
  dictionary of target options gives no alive test lines.
\<close>

definition set_plugins ::
  "'sev daemon \<Rightarrow> scan_request \<Rightarrow> py_error + string list \<times> bool" where
  "set_plugins d rq =
     (case rq_vts rq of
        None \<Rightarrow> Inr ([], True)
      | Some nvts \<Rightarrow>
          (case process_vts (b64_ok d) (vts d) nvts of
             Inl e \<Rightarrow> Inl e
           | Inr (nvts_list, nvts_params) \<Rightarrow>
               (case merge_alive_test (build_alive_test_opt_as_prefs (rq_target_options rq))
                       nvts_params of
                  Inl e \<Rightarrow> Inl e
                | Inr nvts_params' \<Rightarrow>
                    Inr ((''plugin_set|||'' @ py_join '';'' nvts_list)
                         # map (\<lambda>(key, val). key @ ''|||'' @ val) nvts_params',
                         False))))"

text \<open>
  What a run reads from outside: the operating system, the fresh \<open>uuid4\<close>, the pid of
  the started engine (\<open>None\<close> when \<open>Popen\<close> raises \<open>OSError\<close>), and the engine's steps.
\<close>

record scan_env =
  os :: os_env
  new_uuid :: string
  popen_pid :: "nat option"
  engine :: "engine_step list"

text \<open>
  The loop that waits until the engine has taken the status away from \<open>new\<close>. While it
  reads \<open>new\<close>, a negative exit code of the engine runs \<open>stop_scan_cleanup\<close> and
  returns 1.
\<close>

fun wait_loop ::
  "'sev daemon \<Rightarrow> os_env \<Rightarrow> string \<Rightarrow> string \<Rightarrow> string \<Rightarrow> nat \<Rightarrow> engine_step list \<Rightarrow>
   'sev scan_state \<Rightarrow> (scan_ret \<times> 'sev scan_state \<times> tick_obs list) option" where
  "wait_loop d osenv scan_id target openvas_scan_id main_kbindex [] st = None"
| "wait_loop d osenv scan_id target openvas_scan_id main_kbindex (e # es) st =
     (let st1 = st\<lparr>store := act e (store st)\<rparr> in
      if get_single_item (store st1) main_kbindex (''internal/'' @ openvas_scan_id)
           = Some ''new'' then
        (if (case exit_code e of None \<Rightarrow> False | Some res \<Rightarrow> res < 0) then
           (case stop_scan_cleanup osenv (max_dbindex d) scan_id (store st1) of
              None \<Rightarrow> None
            | Some (CleanupRaise err, s') \<Rightarrow> Some (Raise err, st1\<lparr>store := s'\<rparr>, [])
            | Some (_, s') \<Rightarrow> Some (ReturnInt 1, st1\<lparr>store := s'\<rparr>, []))
         else wait_loop d osenv scan_id target openvas_scan_id main_kbindex es st1)
      else poll_loop d scan_id target openvas_scan_id main_kbindex es False st1)"

text \<open>
  The part of \<open>exec_scan\<close> that fills the main index: the status \<open>new\<close>, the mapping
  from the client's scan id to the engine's, and the preference lines, appended to
  \<open>internal/<id>/scanprefs\<close> in the order of the source. The result is the store, the
  errors reported to the client and \<open>do_not_launch\<close>; an exception from \<open>process_vts\<close>
  or from the alive test lines leaves with what was written before it.
\<close>

definition scan_error :: "string \<Rightarrow> string \<Rightarrow> 'sev scan_event" where
  "scan_error target msg = AddScanError target [] (Some []) msg []"

definition write_preferences ::
  "'sev daemon \<Rightarrow> scan_request \<Rightarrow> string \<Rightarrow> nat \<Rightarrow> store \<Rightarrow>
   (py_error \<times> store \<times> 'sev scan_event list) + (store \<times> 'sev scan_event list \<times> bool)" where
  "write_preferences d rq openvas_scan_id main_kbindex s0 =
     (let prefs_key = ''internal/'' @ openvas_scan_id @ ''/scanprefs'';
          s1 = add_single_item s0 main_kbindex (''internal/'' @ openvas_scan_id) [''new''];
          s2 = add_single_item s1 main_kbindex
                 (''internal/'' @ rq_scan_id rq @ ''/globalscanid'') [openvas_scan_id];
          s3 = add_single_item s2 main_kbindex ''internal/scanid'' [openvas_scan_id];
          options = merge_exclude_hosts (rq_options rq) (rq_exclude_hosts rq)
                      (rq_finished_hosts rq);
          s4 = add_single_item s3 main_kbindex prefs_key (scan_prefs options);
          s5 = add_single_item s4 main_kbindex prefs_key
                 [''ov_maindbid|||'' @ str_of_nat main_kbindex];
          s6 = add_single_item s5 main_kbindex prefs_key [''TARGET|||'' @ rq_target rq];
          s7 = add_single_item s6 main_kbindex prefs_key [''port_range|||'' @ rq_ports rq];
          cred = set_credentials (rq_credentials rq);
          s8 = (if fst cred \<noteq> [] then add_single_item s7 main_kbindex prefs_key (fst cred)
                else s7);
          ev1 = (if snd cred then [scan_error (rq_target rq) ''Malformed credential.'']
                 else [])
      in
      case set_plugins d rq of
        Inl err \<Rightarrow> Inl (err, s8, ev1)
      | Inr (plugin_prefs, no_vts) \<Rightarrow>
          Inr (fold (\<lambda>item s. add_single_item s main_kbindex prefs_key [item]) plugin_prefs s8,
               ev1 @ (if no_vts then [scan_error (rq_target rq) ''No VTS to run.''] else []),
               snd cred \<or> no_vts))"

text \<open>
  \<open>exec_scan\<close>, from the store it finds. A pending feed update and a missing port list
  return 2 before anything is allocated. When the scan must not be launched the main
  index is released and 2 is returned; when the engine cannot be started the function
  returns \<open>False\<close>; otherwise the pid is stored and the two loops run.
\<close>

definition exec_scan ::
  "'sev daemon \<Rightarrow> scan_request \<Rightarrow> scan_env \<Rightarrow> store \<Rightarrow>
   (scan_ret \<times> 'sev scan_state \<times> tick_obs list) option" where
  "exec_scan d rq env s0 =
     (if feed_pending d then
        Some (ReturnInt 2,
              \<lparr>store = s0,
               events = [scan_error (rq_target rq)
                 (''It was not possible to start the scan,''
                  @ ''because a pending feed update. Please try later'')],
               harvested = []\<rparr>, [])
      else if rq_ports rq = [] then
        Some (ReturnInt 2,
              \<lparr>store = s0, events = [scan_error (rq_target rq) ''No port list defined.''],
               harvested = []\<rparr>, [])
      else
        (case kb_new (max_dbindex d) s0 of
           None \<Rightarrow> Some (Raise ResourceExhausted, \<lparr>store = s0, events = [], harvested = []\<rparr>, [])
         | Some main_kbindex \<Rightarrow>
             (case write_preferences d rq (new_uuid env) main_kbindex
                     (s0(main_kbindex \<mapsto> Map.empty)) of
                Inl (err, s, ev) \<Rightarrow> Some (Raise err, \<lparr>store = s, events = ev, harvested = []\<rparr>, [])
              | Inr (s, ev, do_not_launch) \<Rightarrow>
                  if do_not_launch then
                    Some (ReturnInt 2,
                          \<lparr>store = release_db s main_kbindex, events = ev, harvested = []\<rparr>, [])
                  else
                    (case popen_pid env of
                       None \<Rightarrow> Some (ReturnFalse, \<lparr>store = s, events = ev, harvested = []\<rparr>, [])
                     | Some ovas_pid \<Rightarrow>
                         wait_loop d (os env) (rq_scan_id rq) (rq_target rq) (new_uuid env)
                           main_kbindex (engine env)
                           \<lparr>store = add_single_item s main_kbindex ''internal/ovas_pid''
                                      [str_of_nat ovas_pid],
                            events = ev, harvested = []\<rparr>))))"

section \<open>Notions used in the statements\<close>

text \<open>A line that begins with a given text, and a service \<open>build_credentials_as_prefs\<close>
  has a branch for.\<close>

definition starts_with :: "string \<Rightarrow> string \<Rightarrow> bool" where
  "starts_with p s = (take (length p) s = p)"

definition recognized_service :: "string \<Rightarrow> bool" where
  "recognized_service service = (service \<in> set [''ssh'', ''smb'', ''esxi'', ''snmp''])"

text \<open>
  A pass of the polling loop is quiet when it harvested no host index and the target
  read as finished at its end. The store is quiet for a scan when the main index maps
  the client's scan id to the engine's, the status of the scan is \<open>finished\<close> or
  absent, and the registry of host indices names nothing but the main index.
\<close>

definition quiet :: "tick_obs \<Rightarrow> bool" where
  "quiet ob = (fst ob = [] \<and> snd ob)"


text \<open>
  For \<open>stop_scan_cleanup\<close>: no partition but the main index maps the client's scan
  id; and the engine's process, as recorded under \<open>internal/ovas_pid\<close>, is gone or can
  be stopped and then goes away.
\<close>

definition only_mapping :: "store \<Rightarrow> nat \<Rightarrow> string \<Rightarrow> bool" where
  "only_mapping s main_kbindex scan_id =
     (\<forall>k. k \<noteq> main_kbindex \<longrightarrow>
        \<not> truthy (get_single_item s k (''internal/'' @ scan_id @ ''/globalscanid'')))"

definition engine_stoppable :: "os_env \<Rightarrow> string option \<Rightarrow> bool" where
  "engine_stoppable osenv ovas_pid =
     (case ovas_pid of
        None \<Rightarrow> True
      | Some p \<Rightarrow>
          (case py_int p of
             None \<Rightarrow> False
           | Some pid \<Rightarrow>
               0 \<le> pid \<and> (proc_life osenv pid = Some 0
                           \<or> (stop_cmd_ok osenv \<and> proc_life osenv pid \<noteq> None))))"

section \<open>Example runs\<close>

text \<open>
  What a run returned, the store it left and what its passes through the polling loop
  saw; and a small daemon, request and environment: an empty catalog, a store of three
  indices, the client's scan \<open>scan1\<close> that the engine knows as \<open>u1\<close>, and engine steps
  that do nothing, set the status of the scan, register a finished host under index 1,
  or end with a negative exit code.
\<close>

definition returned :: "(scan_ret \<times> 'sev scan_state \<times> tick_obs list) option \<Rightarrow> scan_ret option" where
  "returned r = map_option fst r"

definition final_store :: "(scan_ret \<times> 'sev scan_state \<times> tick_obs list) option \<Rightarrow> store" where
  "final_store r = (case r of None \<Rightarrow> Map.empty | Some (_, st, _) \<Rightarrow> store st)"

definition observed :: "(scan_ret \<times> 'sev scan_state \<times> tick_obs list) option \<Rightarrow> tick_obs list" where
  "observed r = (case r of None \<Rightarrow> [] | Some (_, _, obs) \<Rightarrow> obs)"

definition ex_daemon :: "nat daemon" where
  "ex_daemon = \<lparr>vts = [], QOD_TYPES = Map.empty, cvss_base_v2_value = (\<lambda>_. Inr None),
        max_dbindex = 3, b64_ok = (\<lambda>_. True), feed_pending = False\<rparr>"

definition ex_request :: scan_request where
  "ex_request = \<lparr>rq_scan_id = ''scan1'', rq_target = ''10.0.0.5'', rq_ports = ''80'', rq_options = [],
         rq_exclude_hosts = [], rq_finished_hosts = [], rq_credentials = [],
         rq_vts = Some \<lparr>vt_groups = [], single_vts = []\<rparr>, rq_target_options = Map.empty\<rparr>"

definition ex_os :: os_env where
  "ex_os = \<lparr>proc_life = (\<lambda>_. Some 0), stop_cmd_ok = True\<rparr>"

definition idle :: engine_step where
  "idle = \<lparr>act = (\<lambda>s. s), exit_code = None\<rparr>"

definition sets_status :: "string \<Rightarrow> engine_step" where
  "sets_status v = \<lparr>act = (\<lambda>s. set_single_item s 0 ''internal/u1'' [v]), exit_code = None\<rparr>"

definition registers_host :: engine_step where
  "registers_host =
     \<lparr>act = (\<lambda>s. (add_single_item (set_single_item s 0 ''internal/u1'' [''running''])
                    0 ''internal/dbindex'' [''1''])
                  (1 \<mapsto> [''internal/scan_id'' \<mapsto> [''u1''], ''internal/u1'' \<mapsto> [''finished''],
                          ''internal/ip'' \<mapsto> [''10.0.0.5'']])),
      exit_code = None\<rparr>"

definition ex_env :: "engine_step list \<Rightarrow> scan_env" where
  "ex_env steps = \<lparr>os = ex_os, new_uuid = ''u1'', popen_pid = Some 4242, engine = steps\<rparr>"

definition dies :: engine_step where
  "dies = \<lparr>act = (\<lambda>s. s), exit_code = Some (- 1)\<rparr>"

definition ex_launched :: "string \<Rightarrow> nat scan_state" where
  "ex_launched status =
     \<lparr>store = [0 \<mapsto> [''internal/u1'' \<mapsto> [status],
                      ''internal/scan1/globalscanid'' \<mapsto> [''u1''],
                      ''internal/ovas_pid'' \<mapsto> [''4242'']]],
      events = [], harvested = []\<rparr>"

section \<open>Properties of the preference compiler\<close>

lemmas py_int_eval = py_int_def py_strip_def is_py_space_def py_nat_def is_digit_def digit_val_def

subsection \<open>Credentials\<close>

lemma build_credentials_loop_append:
  "build_credentials_loop cs acc = acc @ build_credentials_loop cs []"
proof (induction cs arbitrary: acc)
  case Nil
  show ?case by simp
next
  case (Cons c cs)
  obtain service cp where c: "c = (service, cp)" by (cases c)
  have "build_credentials_loop (c # cs) acc
        = (acc @ credential_as_prefs service cp) @ build_credentials_loop cs []"
    unfolding c build_credentials_loop.simps by (rule Cons.IH)
  moreover have "build_credentials_loop (c # cs) []
        = credential_as_prefs service cp @ build_credentials_loop cs []"
    unfolding c build_credentials_loop.simps
    using Cons.IH[of "[] @ credential_as_prefs service cp"] by simp
  ultimately show ?case by simp
qed

lemma build_credentials_as_prefs_Cons:
  "build_credentials_as_prefs ((service, cp) # cs)
   = credential_as_prefs service cp @ build_credentials_as_prefs cs"
  unfolding build_credentials_as_prefs_def build_credentials_loop.simps
  using build_credentials_loop_append[of cs "[] @ credential_as_prefs service cp"] by simp

lemma build_credentials_as_prefs_append:
  "build_credentials_as_prefs (cs1 @ cs2)
   = build_credentials_as_prefs cs1 @ build_credentials_as_prefs cs2"
proof (induction cs1)
  case Nil
  show ?case by (simp add: build_credentials_as_prefs_def)
next
  case (Cons c cs1)
  obtain service cp where c: "c = (service, cp)" by (cases c)
  show ?case using Cons.IH by (simp add: c build_credentials_as_prefs_Cons)
qed

lemma ssh_up_lines:
  "dict_get_default cp ''type'' [] = ''up'' \<Longrightarrow>
   credential_as_prefs ''ssh'' cp =
     [''auth_port_ssh|||'' @ dict_get_default cp ''port'' [],
      ''1.3.6.1.4.1.25623.1.0.103591:1:entry:SSH login name:|||''
        @ dict_get_default cp ''username'' [],
      ''1.3.6.1.4.1.25623.1.0.103591:3:password:SSH password (unsafe!):|||''
        @ dict_get_default cp ''password'' []]"
  by (simp add: credential_as_prefs_def OID_SSH_AUTH_def Let_def)

lemma ssh_key_lines:
  "dict_get_default cp ''type'' [] \<noteq> ''up'' \<Longrightarrow>
   credential_as_prefs ''ssh'' cp =
     [''auth_port_ssh|||'' @ dict_get_default cp ''port'' [],
      ''1.3.6.1.4.1.25623.1.0.103591:1:entry:SSH login name:|||''
        @ dict_get_default cp ''username'' [],
      ''1.3.6.1.4.1.25623.1.0.103591:2:password:SSH key passphrase:|||''
        @ dict_get_default cp ''password'' [],
      ''1.3.6.1.4.1.25623.1.0.103591:4:file:SSH private key:|||''
        @ dict_get_default cp ''private'' []]"
  by (simp add: credential_as_prefs_def OID_SSH_AUTH_def Let_def)

text \<open>
  C6. For the service \<open>ssh\<close>, wherever its entry stands among the credentials: with
  type \<open>up\<close> the entry contributes exactly three lines, the port, the login name and
  the password, and none of them is a key passphrase (slot 2) or private key (slot 4)
  line; with any other type it contributes the port, the login name, the key
  passphrase and the private key, and none of them is a plain password (slot 3) line.
\<close>

theorem ssh_credential_expansion:
  "build_credentials_as_prefs (cs1 @ (''ssh'', cp) # cs2)
   = build_credentials_as_prefs cs1 @ credential_as_prefs ''ssh'' cp
     @ build_credentials_as_prefs cs2
   \<and> (dict_get_default cp ''type'' [] = ''up'' \<longrightarrow>
        credential_as_prefs ''ssh'' cp =
          [''auth_port_ssh|||'' @ dict_get_default cp ''port'' [],
           ''1.3.6.1.4.1.25623.1.0.103591:1:entry:SSH login name:|||''
             @ dict_get_default cp ''username'' [],
           ''1.3.6.1.4.1.25623.1.0.103591:3:password:SSH password (unsafe!):|||''
             @ dict_get_default cp ''password'' []]
        \<and> (\<forall>l \<in> set (credential_as_prefs ''ssh'' cp).
              \<not> starts_with ''1.3.6.1.4.1.25623.1.0.103591:2:'' l
              \<and> \<not> starts_with ''1.3.6.1.4.1.25623.1.0.103591:4:'' l))
   \<and> (dict_get_default cp ''type'' [] \<noteq> ''up'' \<longrightarrow>
        credential_as_prefs ''ssh'' cp =
          [''auth_port_ssh|||'' @ dict_get_default cp ''port'' [],
           ''1.3.6.1.4.1.25623.1.0.103591:1:entry:SSH login name:|||''
             @ dict_get_default cp ''username'' [],
           ''1.3.6.1.4.1.25623.1.0.103591:2:password:SSH key passphrase:|||''
             @ dict_get_default cp ''password'' [],
           ''1.3.6.1.4.1.25623.1.0.103591:4:file:SSH private key:|||''
             @ dict_get_default cp ''private'' []]
        \<and> (\<forall>l \<in> set (credential_as_prefs ''ssh'' cp).
              \<not> starts_with ''1.3.6.1.4.1.25623.1.0.103591:3:'' l))"
proof (intro conjI impI)
  show "build_credentials_as_prefs (cs1 @ (''ssh'', cp) # cs2)
        = build_credentials_as_prefs cs1 @ credential_as_prefs ''ssh'' cp
          @ build_credentials_as_prefs cs2"
    by (simp add: build_credentials_as_prefs_append build_credentials_as_prefs_Cons)
next
  assume up: "dict_get_default cp ''type'' [] = ''up''"
  show "credential_as_prefs ''ssh'' cp =
          [''auth_port_ssh|||'' @ dict_get_default cp ''port'' [],
           ''1.3.6.1.4.1.25623.1.0.103591:1:entry:SSH login name:|||''
             @ dict_get_default cp ''username'' [],
           ''1.3.6.1.4.1.25623.1.0.103591:3:password:SSH password (unsafe!):|||''
             @ dict_get_default cp ''password'' []]"
    by (rule ssh_up_lines[OF up])
  show "\<forall>l \<in> set (credential_as_prefs ''ssh'' cp).
          \<not> starts_with ''1.3.6.1.4.1.25623.1.0.103591:2:'' l
          \<and> \<not> starts_with ''1.3.6.1.4.1.25623.1.0.103591:4:'' l"
    by (simp add: ssh_up_lines[OF up] starts_with_def)
next
  assume key: "dict_get_default cp ''type'' [] \<noteq> ''up''"
  show "credential_as_prefs ''ssh'' cp =
          [''auth_port_ssh|||'' @ dict_get_default cp ''port'' [],
           ''1.3.6.1.4.1.25623.1.0.103591:1:entry:SSH login name:|||''
             @ dict_get_default cp ''username'' [],
           ''1.3.6.1.4.1.25623.1.0.103591:2:password:SSH key passphrase:|||''
             @ dict_get_default cp ''password'' [],
           ''1.3.6.1.4.1.25623.1.0.103591:4:file:SSH private key:|||''
             @ dict_get_default cp ''private'' []]"
    by (rule ssh_key_lines[OF key])
  show "\<forall>l \<in> set (credential_as_prefs ''ssh'' cp).
          \<not> starts_with ''1.3.6.1.4.1.25623.1.0.103591:3:'' l"
    by (simp add: ssh_key_lines[OF key] starts_with_def)
qed

theorem ssh_credential_expansion_witness:
  "build_credentials_as_prefs
     [(''ssh'', [''type'' \<mapsto> ''up'', ''username'' \<mapsto> ''root'', ''password'' \<mapsto> ''pw'',
               ''port'' \<mapsto> ''22''])]
   = [''auth_port_ssh|||22'',
      ''1.3.6.1.4.1.25623.1.0.103591:1:entry:SSH login name:|||root'',
      ''1.3.6.1.4.1.25623.1.0.103591:3:password:SSH password (unsafe!):|||pw'']
   \<and> build_credentials_as_prefs
     [(''ssh'', [''type'' \<mapsto> ''usk'', ''username'' \<mapsto> ''root'', ''password'' \<mapsto> ''pw'',
               ''private'' \<mapsto> ''KEY''])]
   = [''auth_port_ssh|||'',
      ''1.3.6.1.4.1.25623.1.0.103591:1:entry:SSH login name:|||root'',
      ''1.3.6.1.4.1.25623.1.0.103591:2:password:SSH key passphrase:|||pw'',
      ''1.3.6.1.4.1.25623.1.0.103591:4:file:SSH private key:|||KEY'']"
  using ssh_credential_expansion[of "[]"
          "[''type'' \<mapsto> ''up'', ''username'' \<mapsto> ''root'', ''password'' \<mapsto> ''pw'',
            ''port'' \<mapsto> ''22'']" "[]"]
        ssh_credential_expansion[of "[]"
          "[''type'' \<mapsto> ''usk'', ''username'' \<mapsto> ''root'', ''password'' \<mapsto> ''pw'',
            ''private'' \<mapsto> ''KEY'']" "[]"]
  by (simp add: dict_get_default_def build_credentials_as_prefs_def)

subsection \<open>Alive test\<close>

lemma and_flag_bit: "(m AND (2 ^ n :: int) \<noteq> 0) = bit m n"
  by (simp add: bit_iff_and_push_bit_not_eq_0 push_bit_eq_mult)

lemma alive_flags:
  "(m AND ALIVE_TEST_TCP_ACK_SERVICE \<noteq> 0) = bit m 0"
  "(m AND ALIVE_TEST_ICMP \<noteq> 0) = bit m 1"
  "(m AND ALIVE_TEST_ARP \<noteq> 0) = bit m 2"
  "(m AND ALIVE_TEST_CONSIDER_ALIVE \<noteq> 0) = bit m 3"
  "(m AND ALIVE_TEST_TCP_SYN_SERVICE \<noteq> 0) = bit m 4"
  using and_flag_bit[of m 0] and_flag_bit[of m 1] and_flag_bit[of m 2]
    and_flag_bit[of m 3] and_flag_bit[of m 4]
  by (simp_all add: ALIVE_TEST_TCP_ACK_SERVICE_def ALIVE_TEST_ICMP_def ALIVE_TEST_ARP_def
      ALIVE_TEST_CONSIDER_ALIVE_def ALIVE_TEST_TCP_SYN_SERVICE_def)

lemma alive_test_prefs_in_range:
  assumes "1 \<le> m" "m \<le> 31"
  shows "alive_test_prefs m =
     [''1.3.6.1.4.1.25623.1.0.100315:1:checkbox:Do a TCP ping|||''
        @ (if bit m 0 \<or> bit m 4 then ''yes'' else ''no''),
      ''1.3.6.1.4.1.25623.1.0.100315:2:checkbox:TCP ping tries also TCP-SYN ping|||''
        @ (if bit m 0 \<and> bit m 4 then ''yes'' else ''no''),
      ''1.3.6.1.4.1.25623.1.0.100315:7:checkbox:TCP ping tries only TCP-SYN ping|||''
        @ (if bit m 4 \<and> \<not> bit m 0 then ''yes'' else ''no''),
      ''1.3.6.1.4.1.25623.1.0.100315:3:checkbox:Do an ICMP ping|||''
        @ (if bit m 1 then ''yes'' else ''no''),
      ''1.3.6.1.4.1.25623.1.0.100315:4:checkbox:Use ARP|||''
        @ (if bit m 2 then ''yes'' else ''no''),
      ''1.3.6.1.4.1.25623.1.0.100315:5:checkbox:Mark unrechable Hosts as dead (not scanning)|||''
        @ (if bit m 3 then ''no'' else ''yes'')]
     @ (if m = 8 then [''1.3.6.1.4.1.25623.1.0.100315:1:checkbox:Do a TCP ping|||yes''] else [])"
proof -
  have r: "\<not> (m < 1 \<or> m > 31)" using assms by simp
  show ?thesis
    unfolding alive_test_prefs_def alive_flags yes_no_def OID_PING_HOST_def
    using r by (simp add: ALIVE_TEST_CONSIDER_ALIVE_def conj_commute)
qed

lemma py_int_8: "py_int ''8'' = Some 8"
  by (simp add: py_int_def py_strip_def is_py_space_def py_nat_def is_digit_def digit_val_def)

lemma py_int_32: "py_int ''32'' = Some 32"
  by (simp add: py_int_def py_strip_def is_py_space_def py_nat_def is_digit_def digit_val_def)

text \<open>
  C3. For an alive test value that \<open>int()\<close> reads as \<open>m\<close>: when \<open>m\<close> lies in 1..31 the
  result is exactly the six lines of the bit table (TCP ping: bit 0 (TCP-ACK) or bit 4
  (TCP-SYN); also TCP-SYN: both; only TCP-SYN: bit 4 without bit 0; ICMP: bit 1; ARP:
  bit 2; mark unreachable hosts as dead: \<open>no\<close> iff bit 3 (consider alive)), followed by
  one forced \<open>Do a TCP ping|||yes\<close> line exactly when \<open>m = 8\<close>; for any other \<open>m\<close> there
  is no line at all.
\<close>

theorem alive_test_bit_table:
  assumes "target_options ''alive_test'' = Some v" and "v \<noteq> []" and "py_int v = Some m"
  shows "build_alive_test_opt_as_prefs target_options =
     (if 1 \<le> m \<and> m \<le> 31 then
        [''1.3.6.1.4.1.25623.1.0.100315:1:checkbox:Do a TCP ping|||''
           @ (if bit m 0 \<or> bit m 4 then ''yes'' else ''no''),
         ''1.3.6.1.4.1.25623.1.0.100315:2:checkbox:TCP ping tries also TCP-SYN ping|||''
           @ (if bit m 0 \<and> bit m 4 then ''yes'' else ''no''),
         ''1.3.6.1.4.1.25623.1.0.100315:7:checkbox:TCP ping tries only TCP-SYN ping|||''
           @ (if bit m 4 \<and> \<not> bit m 0 then ''yes'' else ''no''),
         ''1.3.6.1.4.1.25623.1.0.100315:3:checkbox:Do an ICMP ping|||''
           @ (if bit m 1 then ''yes'' else ''no''),
         ''1.3.6.1.4.1.25623.1.0.100315:4:checkbox:Use ARP|||''
           @ (if bit m 2 then ''yes'' else ''no''),
         ''1.3.6.1.4.1.25623.1.0.100315:5:checkbox:Mark unrechable Hosts as dead (not scanning)|||''
           @ (if bit m 3 then ''no'' else ''yes'')]
        @ (if m = 8 then [''1.3.6.1.4.1.25623.1.0.100315:1:checkbox:Do a TCP ping|||yes'']
           else [])
      else [])"
proof (cases "1 \<le> m \<and> m \<le> 31")
  case True
  then have "1 \<le> m" and "m \<le> 31" by simp_all
  from alive_test_prefs_in_range[OF this] True assms show ?thesis
    by (simp add: build_alive_test_opt_as_prefs_def)
next
  case False
  then have "alive_test_prefs m = []" by (auto simp add: alive_test_prefs_def)
  with False assms show ?thesis
    by (simp add: build_alive_test_opt_as_prefs_def)
qed

theorem alive_test_bit_table_witness:
  "build_alive_test_opt_as_prefs [''alive_test'' \<mapsto> ''8''] =
     [''1.3.6.1.4.1.25623.1.0.100315:1:checkbox:Do a TCP ping|||no'',
      ''1.3.6.1.4.1.25623.1.0.100315:2:checkbox:TCP ping tries also TCP-SYN ping|||no'',
      ''1.3.6.1.4.1.25623.1.0.100315:7:checkbox:TCP ping tries only TCP-SYN ping|||no'',
      ''1.3.6.1.4.1.25623.1.0.100315:3:checkbox:Do an ICMP ping|||no'',
      ''1.3.6.1.4.1.25623.1.0.100315:4:checkbox:Use ARP|||no'',
      ''1.3.6.1.4.1.25623.1.0.100315:5:checkbox:Mark unrechable Hosts as dead (not scanning)|||no'',
      ''1.3.6.1.4.1.25623.1.0.100315:1:checkbox:Do a TCP ping|||yes'']
   \<and> build_alive_test_opt_as_prefs [''alive_test'' \<mapsto> ''32''] = []"
  using alive_test_bit_table[of "[''alive_test'' \<mapsto> ''8'']" "''8''" 8, OF _ _ py_int_8]
        alive_test_bit_table[of "[''alive_test'' \<mapsto> ''32'']" "''32''" 32, OF _ _ py_int_32]
  by (simp add: bit_iff_odd)

subsection \<open>Malformed credentials\<close>

lemma build_credentials_as_prefs_concat:
  "build_credentials_as_prefs cs = concat (map (\<lambda>(service, cp). credential_as_prefs service cp) cs)"
proof (induction cs)
  case Nil show ?case by (simp add: build_credentials_as_prefs_def)
next
  case (Cons c cs)
  obtain service cp where c: "c = (service, cp)" by (cases c)
  show ?case using Cons.IH by (simp add: c build_credentials_as_prefs_Cons)
qed

lemma recognized_length:
  "recognized_service service \<Longrightarrow>
   length (credential_as_prefs service cp) =
     (if service = ''ssh'' then (if dict_get_default cp ''type'' [] = ''up'' then 3 else 4)
      else if service = ''snmp'' then 6 else 2)"
  by (auto simp add: credential_as_prefs_def Let_def recognized_service_def)

lemma unrecognized_empty:
  "\<not> recognized_service service \<Longrightarrow> credential_as_prefs service cp = []"
  by (simp add: credential_as_prefs_def Let_def recognized_service_def)

lemma dict_get_default_total:
  "dict_get_default (\<lambda>k. Some (dict_get_default cp k d)) k d = dict_get_default cp k d"
  by (simp add: dict_get_default_def)

lemma missing_as_empty:
  "credential_as_prefs service cp = credential_as_prefs service (\<lambda>k. Some (dict_get_default cp k []))"
  by (simp only: credential_as_prefs_def dict_get_default_total)

lemma recognized_nonempty:
  "recognized_service service \<Longrightarrow> credential_as_prefs service cp \<noteq> []"
  by (auto simp add: credential_as_prefs_def Let_def recognized_service_def)

lemma build_empty_iff:
  "build_credentials_as_prefs cs = [] \<longleftrightarrow>
   (\<forall>(service, cp) \<in> set cs. \<not> recognized_service service)"
proof (induction cs)
  case Nil show ?case by (simp add: build_credentials_as_prefs_def)
next
  case (Cons c cs)
  obtain service cp where c: "c = (service, cp)" by (cases c)
  have "credential_as_prefs service cp = [] \<longleftrightarrow> \<not> recognized_service service"
    using recognized_nonempty[of service cp] unrecognized_empty[of service cp]
    by blast
  then show ?case using Cons.IH by (simp add: c build_credentials_as_prefs_Cons)
qed

text \<open>
  C1, as the code has it. A sub-field missing from an entry is read as the empty string,
  so an entry expands as if every sub-field were present. The entry of a recognized
  service always contributes its full set of lines (three or four for \<open>ssh\<close>, six for
  \<open>snmp\<close>, two for \<open>smb\<close> and \<open>esxi\<close>), and then \<open>exec_scan\<close> adds the lines and does
  not signal failure. Failure is signalled exactly for a non-empty dictionary of
  credentials in which no service is recognized.
\<close>

theorem malformed_credential_amended:
  "credential_as_prefs service cp = credential_as_prefs service (\<lambda>k. Some (dict_get_default cp k []))
   \<and> (recognized_service service \<and> (service, cp) \<in> set credentials \<longrightarrow>
        set_credentials credentials = (build_credentials_as_prefs credentials, False)
        \<and> set (credential_as_prefs service cp) \<subseteq> set (build_credentials_as_prefs credentials)
        \<and> length (credential_as_prefs service cp) =
            (if service = ''ssh'' then (if dict_get_default cp ''type'' [] = ''up'' then 3 else 4)
             else if service = ''snmp'' then 6 else 2))
   \<and> (snd (set_credentials credentials) \<longleftrightarrow>
        credentials \<noteq> []
        \<and> (\<forall>(s, p) \<in> set credentials. \<not> recognized_service s))"
proof (intro conjI impI)
  show "credential_as_prefs service cp = credential_as_prefs service (\<lambda>k. Some (dict_get_default cp k []))"
    by (rule missing_as_empty)
next
  assume a: "recognized_service service \<and> (service, cp) \<in> set credentials"
  then have rec: "recognized_service service"
    and mem: "(service, cp) \<in> set credentials" by blast+
  have ne: "build_credentials_as_prefs credentials \<noteq> []"
    using build_empty_iff[of credentials] rec mem by blast
  have cne: "credentials \<noteq> []" using mem by auto
  show "set_credentials credentials = (build_credentials_as_prefs credentials, False)"
    using ne cne by (simp add: set_credentials_def Let_def)
  show "set (credential_as_prefs service cp) \<subseteq> set (build_credentials_as_prefs credentials)"
    unfolding build_credentials_as_prefs_concat using mem by force
  show "length (credential_as_prefs service cp) =
            (if service = ''ssh'' then (if dict_get_default cp ''type'' [] = ''up'' then 3 else 4)
             else if service = ''snmp'' then 6 else 2)"
    by (rule recognized_length[OF rec])
next
  show "snd (set_credentials credentials) \<longleftrightarrow>
        credentials \<noteq> []
        \<and> (\<forall>(s, p) \<in> set credentials. \<not> recognized_service s)"
    using build_empty_iff[of credentials] by (simp add: set_credentials_def Let_def)
qed

theorem malformed_credential_amended_witness:
  "set_credentials [(''smb'', [''username'' \<mapsto> ''admin''])]
   = ([''1.3.6.1.4.1.25623.1.0.90023:1:entry:SMB login:|||admin'',
       ''1.3.6.1.4.1.25623.1.0.90023:2:password:SMB password:|||''], False)
   \<and> length (credential_as_prefs ''smb'' [''username'' \<mapsto> ''admin'']) = 2
   \<and> snd (set_credentials [(''ftp'', [''username'' \<mapsto> ''admin''])])"
  using malformed_credential_amended[of "''smb''" "[''username'' \<mapsto> ''admin'']"
          "[(''smb'', [''username'' \<mapsto> ''admin''])]"]
        malformed_credential_amended[of "''ftp''" "[''username'' \<mapsto> ''admin'']"
          "[(''ftp'', [''username'' \<mapsto> ''admin''])]"]
  by (simp add: build_credentials_as_prefs_def credential_as_prefs_def
        dict_get_default_def OID_SMB_AUTH_def recognized_service_def)

text \<open>
  C1, as stated, fails: an \<open>ssh\<close> entry of type \<open>up\<close> without password and port still
  gives its three lines, with empty values, and no failure is signalled.
\<close>

theorem malformed_credential_counterexample:
  "set_credentials [(''ssh'', [''type'' \<mapsto> ''up'', ''username'' \<mapsto> ''root''])]
   = ([''auth_port_ssh|||'',
       ''1.3.6.1.4.1.25623.1.0.103591:1:entry:SSH login name:|||root'',
       ''1.3.6.1.4.1.25623.1.0.103591:3:password:SSH password (unsafe!):|||''], False)"
  by (simp add: set_credentials_def build_credentials_as_prefs_def credential_as_prefs_def
        dict_get_default_def OID_SSH_AUTH_def)

subsection \<open>Excluded hosts\<close>

lemma update_mem: "(k, v) \<in> set (AList.update k v al)"
  by (induction al) auto

lemma map_of_update_same: "map_of (AList.update k v al) k = Some v"
  by (simp add: update_conv')

lemma scan_prefs_mem:
  "(k, v) \<in> set options \<Longrightarrow> map_of OSPD_PARAMS_type k \<noteq> Some ''boolean'' \<Longrightarrow>
   (k @ ''|||'' @ py_str v) \<in> set (scan_prefs options)"
  by (force simp add: scan_prefs_def)

lemma exclude_not_boolean: "map_of OSPD_PARAMS_type ''exclude_hosts'' \<noteq> Some ''boolean''"
  by (simp add: OSPD_PARAMS_type_def)

text \<open>
  C7. With the explicit exclusion \<open>10.0.0.1\<close> and the finished hosts \<open>10.0.0.2\<close> and
  \<open>10.0.0.3\<close>, whatever the other options are, the option \<open>exclude_hosts\<close> becomes
  \<open>10.0.0.1,10.0.0.2,10.0.0.3\<close> and the preference line with that value is among the
  compiled lines.
\<close>

theorem exclude_hosts_merge:
  "map_of (merge_exclude_hosts options ''10.0.0.1'' [''10.0.0.2'', ''10.0.0.3''])
     ''exclude_hosts'' = Some (PStr ''10.0.0.1,10.0.0.2,10.0.0.3'')
   \<and> ''exclude_hosts|||10.0.0.1,10.0.0.2,10.0.0.3''
       \<in> set (scan_prefs (merge_exclude_hosts options ''10.0.0.1'' [''10.0.0.2'', ''10.0.0.3'']))"
proof -
  have m: "merge_exclude_hosts options ''10.0.0.1'' [''10.0.0.2'', ''10.0.0.3'']
     = AList.update ''exclude_hosts'' (PStr ''10.0.0.1,10.0.0.2,10.0.0.3'')
       (AList.update ''exclude_hosts'' (PStr ''10.0.0.1'') options)"
    by (simp add: merge_exclude_hosts_def)
  have "(''exclude_hosts'', PStr ''10.0.0.1,10.0.0.2,10.0.0.3'')
          \<in> set (merge_exclude_hosts options ''10.0.0.1'' [''10.0.0.2'', ''10.0.0.3''])"
    unfolding m by (rule update_mem)
  from scan_prefs_mem[OF this exclude_not_boolean]
  have "''exclude_hosts|||10.0.0.1,10.0.0.2,10.0.0.3''
       \<in> set (scan_prefs (merge_exclude_hosts options ''10.0.0.1'' [''10.0.0.2'', ''10.0.0.3'']))"
    by (simp add: py_str_def)
  moreover have "map_of (merge_exclude_hosts options ''10.0.0.1'' [''10.0.0.2'', ''10.0.0.3''])
     ''exclude_hosts'' = Some (PStr ''10.0.0.1,10.0.0.2,10.0.0.3'')"
    unfolding m by (rule map_of_update_same)
  ultimately show ?thesis by simp
qed

section \<open>Properties of the feed check\<close>

lemma read_plugin_set_none:
  "\<forall>line \<in> set fcontent. \<not> py_in ''PLUGIN_SET'' line \<Longrightarrow> read_plugin_set fcontent date = Inr date"
  by (induction fcontent arbitrary: date) auto

text \<open>
  C10. With a plugins folder configured and a cached version that \<open>int()\<close> accepts: a
  marker file without any \<open>PLUGIN_SET\<close> line makes \<open>feed_is_outdated\<close> return
  \<open>True\<close>, however high the cached version is, while for an absent marker file it
  returns \<open>None\<close>.
\<close>

theorem feed_without_plugin_set:
  assumes "truthy pf" and "\<forall>line \<in> set fcontent. \<not> py_in ''PLUGIN_SET'' line"
    and "py_int current_feed = Some c"
  shows "feed_is_outdated pf (Some fcontent) current_feed = Inr (Some True)
         \<and> feed_is_outdated pf None current_feed = Inr None"
  using assms read_plugin_set_none[OF assms(2), of None]
  by (simp add: feed_is_outdated_def truthy_def int_of_date_def)

theorem feed_without_plugin_set_witness:
  "feed_is_outdated (Some ''/var/lib/openvas/plugins'') (Some [''# no version here''])
     ''99999999999999'' = Inr (Some True)
   \<and> feed_is_outdated (Some ''/var/lib/openvas/plugins'') None ''99999999999999'' = Inr None"
  using feed_without_plugin_set[of "Some ''/var/lib/openvas/plugins''" "[''# no version here'']"
          "''99999999999999''" 99999999999999]
  by (simp add: truthy_def py_int_eval)

text \<open>
  C5. With a plugins folder configured: for a marker file whose version reads 5,
  \<open>feed_is_outdated\<close> returns \<open>True\<close> for the cached version \<open>0\<close> and \<open>False\<close> for
  the cached version \<open>10\<close>; for an absent marker file it returns \<open>None\<close>, and then
  \<open>check_feed\<close>, which asks it for any non-empty cached version, sets the pending flag
  and changes nothing else.
\<close>

theorem feed_staleness:
  assumes "truthy pf"
  shows "(read_plugin_set fcontent None = Inr date \<and> int_of_date date = Some 5 \<longrightarrow>
            feed_is_outdated pf (Some fcontent) ''0'' = Inr (Some True)
            \<and> feed_is_outdated pf (Some fcontent) ''10'' = Inr (Some False))
       \<and> feed_is_outdated pf None current_feed = Inr None
       \<and> (truthy (feed_version env) \<and> plugins_folder env = pf \<and> feed_info_file env = None \<longrightarrow>
            check_feed env st = Inr (st\<lparr>pending_feed := Some True\<rparr>))"
  using assms
  by (auto simp add: feed_is_outdated_def truthy_def check_feed_def Let_def py_int_eval)

theorem feed_staleness_witness:
  "feed_is_outdated (Some ''/var/lib/openvas/plugins'')
     (Some [''PLUGIN_SET = '' @ [CHR 0x22] @ ''5'' @ [CHR 0x22] @ '';'' @ [CHR 0x0A]]) ''0''
     = Inr (Some True)
   \<and> feed_is_outdated (Some ''/var/lib/openvas/plugins'')
     (Some [''PLUGIN_SET = '' @ [CHR 0x22] @ ''5'' @ [CHR 0x22] @ '';'' @ [CHR 0x0A]]) ''10''
     = Inr (Some False)
   \<and> check_feed \<lparr>plugins_folder = Some ''/var/lib/openvas/plugins'', feed_info_file = None,
                 feed_version = Some ''10'', feed_version_after_update = Some ''10'',
                 running_scan = False, load_vts_ok = True\<rparr>
        \<lparr>pending_feed = None, vts_version = Some ''10'', vts_loaded = True\<rparr>
     = Inr \<lparr>pending_feed = Some True, vts_version = Some ''10'', vts_loaded = True\<rparr>"
  using feed_staleness[of "Some ''/var/lib/openvas/plugins''"
          "[''PLUGIN_SET = '' @ [CHR 0x22] @ ''5'' @ [CHR 0x22] @ '';'' @ [CHR 0x0A]]"
          "Some (''5'' @ [CHR 0x0A])" "''10''"
          "\<lparr>plugins_folder = Some ''/var/lib/openvas/plugins'', feed_info_file = None,
                 feed_version = Some ''10'', feed_version_after_update = Some ''10'',
                 running_scan = False, load_vts_ok = True\<rparr>"
          "\<lparr>pending_feed = None, vts_version = Some ''10'', vts_loaded = True\<rparr>"]
  by (simp add: truthy_def py_split_def py_remove_char_def int_of_date_def py_int_eval)


section \<open>Properties of \<open>process_vts\<close>\<close>

lemma process_vt_params_append:
  "process_vt_params b cat vtid (ps1 @ ps2) acc =
     (case process_vt_params b cat vtid ps1 acc of
        Inl e \<Rightarrow> Inl e
      | Inr acc' \<Rightarrow> process_vt_params b cat vtid ps2 acc')"
  by (induction ps1 arbitrary: acc) (auto split: sum.splits)

lemma process_vts_loop_append:
  "process_vts_loop b cat (vs1 @ vs2) acc =
     (case process_vts_loop b cat vs1 acc of
        Inl e \<Rightarrow> Inl e
      | Inr acc' \<Rightarrow> process_vts_loop b cat vs2 acc')"
proof (induction vs1 arbitrary: acc)
  case Nil
  show ?case by simp
next
  case (Cons v vs1)
  obtain vtid params where v: "v = (vtid, params)" by (cases v)
  show ?case unfolding v by (simp add: Cons.IH split: sum.splits)
qed

lemma checkbox_param:
  assumes "map_of cat vtid = Some v"
    and "vt_params v pid = Some \<lparr>param_type = ''checkbox'', param_name = n\<rparr>"
    and "n \<noteq> []" and "pid \<noteq> ''0''"
  shows "process_vt_param b cat vtid (pid, val) acc =
     (if val = ''1'' then Inr (AList.update (vtid @ '':'' @ pid @ '':checkbox:'' @ n) ''yes'' acc)
      else if val = ''0'' then Inr (AList.update (vtid @ '':'' @ pid @ '':checkbox:'' @ n) ''no'' acc)
      else Inr acc)"
  using assms
  by (simp add: process_vt_param_def get_vt_param_type_def get_vt_param_name_def
      check_param_type_def from_bool_to_str_def py_int_eval)


lemma dropped_param:
  assumes "process_vt_param b cat vtid p = Inr"
  shows "process_vt_params b cat vtid (ps1 @ p # ps2) acc
         = process_vt_params b cat vtid (ps1 @ ps2) acc"
  using assms by (simp add: process_vt_params_append split: sum.splits)

lemma dropped_param_vts:
  assumes "process_vt_param b cat vtid p = Inr"
  shows "process_vts b cat \<lparr>vt_groups = g, single_vts = vs1 @ (vtid, ps1 @ p # ps2) # vs2\<rparr>
         = process_vts b cat \<lparr>vt_groups = g, single_vts = vs1 @ (vtid, ps1 @ ps2) # vs2\<rparr>"
  by (simp add: process_vts_def process_vts_loop_append dropped_param[OF assms]
      split: sum.splits)

text \<open>
  C4. For a VT of the catalog and a parameter of it that is declared with type
  \<open>checkbox\<close> and a name, and whose id is not \<open>0\<close> (so that its effective type is
  \<open>checkbox\<close>): the value \<open>1\<close> is compiled to \<open>yes\<close> and the value \<open>0\<close> to \<open>no\<close>, under
  the key \<open>vtid:id:checkbox:name\<close>; any other value leaves the parameters as they are,
  and the whole of \<open>process_vts\<close> gives the same result as if that one parameter had
  not been sent, whatever the other parameters of the VT and the other VTs are.
\<close>

theorem checkbox_parameter:
  assumes "map_of cat vtid = Some v"
    and "vt_params v pid = Some \<lparr>param_type = ''checkbox'', param_name = n\<rparr>"
    and "n \<noteq> []" and "pid \<noteq> ''0''"
  shows "process_vt_param b cat vtid (pid, ''1'') acc
           = Inr (AList.update (vtid @ '':'' @ pid @ '':checkbox:'' @ n) ''yes'' acc)
       \<and> process_vt_param b cat vtid (pid, ''0'') acc
           = Inr (AList.update (vtid @ '':'' @ pid @ '':checkbox:'' @ n) ''no'' acc)
       \<and> process_vts b cat \<lparr>vt_groups = [], single_vts = [(vtid, [(pid, ''1'')])]\<rparr>
           = Inr ([vtid], [(vtid @ '':'' @ pid @ '':checkbox:'' @ n, ''yes'')])
       \<and> process_vts b cat \<lparr>vt_groups = [], single_vts = [(vtid, [(pid, ''0'')])]\<rparr>
           = Inr ([vtid], [(vtid @ '':'' @ pid @ '':checkbox:'' @ n, ''no'')])
       \<and> (val \<noteq> ''0'' \<and> val \<noteq> ''1'' \<longrightarrow>
            process_vt_param b cat vtid (pid, val) acc = Inr acc
            \<and> process_vts b cat
                 \<lparr>vt_groups = g, single_vts = vs1 @ (vtid, ps1 @ (pid, val) # ps2) # vs2\<rparr>
              = process_vts b cat
                 \<lparr>vt_groups = g, single_vts = vs1 @ (vtid, ps1 @ ps2) # vs2\<rparr>)"
proof -
  note cb = checkbox_param[OF assms]
  have mem: "vtid \<in> set (map fst cat)"
    using assms(1) by (metis map_of_eq_None_iff option.distinct(1) set_map)
  have one: "process_vt_param b cat vtid (pid, ''1'') acc
           = Inr (AList.update (vtid @ '':'' @ pid @ '':checkbox:'' @ n) ''yes'' acc)"
    by (simp add: cb)
  have zero: "process_vt_param b cat vtid (pid, ''0'') acc
           = Inr (AList.update (vtid @ '':'' @ pid @ '':checkbox:'' @ n) ''no'' acc)"
    by (simp add: cb)
  have vone: "process_vts b cat \<lparr>vt_groups = [], single_vts = [(vtid, [(pid, ''1'')])]\<rparr>
           = Inr ([vtid], [(vtid @ '':'' @ pid @ '':checkbox:'' @ n, ''yes'')])"
    using mem by (simp add: process_vts_def cb)
  have vzero: "process_vts b cat \<lparr>vt_groups = [], single_vts = [(vtid, [(pid, ''0'')])]\<rparr>
           = Inr ([vtid], [(vtid @ '':'' @ pid @ '':checkbox:'' @ n, ''no'')])"
    using mem by (simp add: process_vts_def cb)
  have other: "val \<noteq> ''0'' \<and> val \<noteq> ''1'' \<longrightarrow>
            process_vt_param b cat vtid (pid, val) acc = Inr acc
            \<and> process_vts b cat
                 \<lparr>vt_groups = g, single_vts = vs1 @ (vtid, ps1 @ (pid, val) # ps2) # vs2\<rparr>
              = process_vts b cat
                 \<lparr>vt_groups = g, single_vts = vs1 @ (vtid, ps1 @ ps2) # vs2\<rparr>"
  proof
    assume o: "val \<noteq> ''0'' \<and> val \<noteq> ''1''"
    then have d: "process_vt_param b cat vtid (pid, val) = Inr"
      by (intro ext) (simp add: cb)
    show "process_vt_param b cat vtid (pid, val) acc = Inr acc
            \<and> process_vts b cat
                 \<lparr>vt_groups = g, single_vts = vs1 @ (vtid, ps1 @ (pid, val) # ps2) # vs2\<rparr>
              = process_vts b cat
                 \<lparr>vt_groups = g, single_vts = vs1 @ (vtid, ps1 @ ps2) # vs2\<rparr>"
      using dropped_param_vts[OF d] d by simp
  qed
  from one zero vone vzero other show ?thesis by blast
qed

theorem checkbox_parameter_witness:
  "process_vts (\<lambda>_. True)
     [(''1.3.6.1.4.1.25623.1.0.100315'',
       \<lparr>vt_name = Some ''Ping Host'',
        vt_params = [''1'' \<mapsto> \<lparr>param_type = ''checkbox'', param_name = ''Do a TCP ping''\<rparr>,
                     ''2'' \<mapsto> \<lparr>param_type = ''entry'', param_name = ''Ports''\<rparr>],
        custom = [''family'' \<mapsto> ''Port scanners''],
        qod_type = None, qod = None, severities = Some Map.empty\<rparr>)]
     \<lparr>vt_groups = [],
      single_vts = [(''1.3.6.1.4.1.25623.1.0.100315'', [(''1'', ''2''), (''2'', ''80'')])]\<rparr>
   = Inr ([''1.3.6.1.4.1.25623.1.0.100315''],
          [(''1.3.6.1.4.1.25623.1.0.100315:2:entry:Ports'', ''80'')])
   \<and> process_vts (\<lambda>_. True)
     [(''1.3.6.1.4.1.25623.1.0.100315'',
       \<lparr>vt_name = Some ''Ping Host'',
        vt_params = [''1'' \<mapsto> \<lparr>param_type = ''checkbox'', param_name = ''Do a TCP ping''\<rparr>,
                     ''2'' \<mapsto> \<lparr>param_type = ''entry'', param_name = ''Ports''\<rparr>],
        custom = [''family'' \<mapsto> ''Port scanners''],
        qod_type = None, qod = None, severities = Some Map.empty\<rparr>)]
     \<lparr>vt_groups = [],
      single_vts = [(''1.3.6.1.4.1.25623.1.0.100315'', [(''1'', ''1'')])]\<rparr>
   = Inr ([''1.3.6.1.4.1.25623.1.0.100315''],
          [(''1.3.6.1.4.1.25623.1.0.100315:1:checkbox:Do a TCP ping'', ''yes'')])"
  using checkbox_parameter[where cat =
     "[(''1.3.6.1.4.1.25623.1.0.100315'',
       \<lparr>vt_name = Some ''Ping Host'',
        vt_params = [''1'' \<mapsto> \<lparr>param_type = ''checkbox'', param_name = ''Do a TCP ping''\<rparr>,
                     ''2'' \<mapsto> \<lparr>param_type = ''entry'', param_name = ''Ports''\<rparr>],
        custom = [''family'' \<mapsto> ''Port scanners''],
        qod_type = None, qod = None, severities = Some Map.empty\<rparr>)]"
     and vtid = "''1.3.6.1.4.1.25623.1.0.100315''"
     and v = "\<lparr>vt_name = Some ''Ping Host'',
        vt_params = [''1'' \<mapsto> \<lparr>param_type = ''checkbox'', param_name = ''Do a TCP ping''\<rparr>,
                     ''2'' \<mapsto> \<lparr>param_type = ''entry'', param_name = ''Ports''\<rparr>],
        custom = [''family'' \<mapsto> ''Port scanners''],
        qod_type = None, qod = None, severities = Some Map.empty\<rparr>"
     and pid = "''1''" and n = "''Do a TCP ping''" and val = "''2''" and b = "\<lambda>_. True"
     and acc = "[]" and g = "[]" and ?vs1.0 = "[]" and ?ps1.0 = "[]"
     and ?ps2.0 = "[(''2'', ''80'')]" and ?vs2.0 = "[]"]
  by (simp add: process_vts_def process_vt_param_def get_vt_param_type_def
      get_vt_param_name_def check_param_type_def)


section \<open>Properties of the result translator\<close>

lemma severity_of_matched:
  assumes "severities v = Some sev"
  shows "get_severity_score cvss (Some v) =
     (if sev ''severity_type'' = Some ''cvss_base_v2'' \<and> truthy (sev ''severity_base_vector'')
      then cvss (the (sev ''severity_base_vector'')) else Inr None)"
  using assms by (simp add: get_severity_score_def Let_def)

lemma split_alarm:
  "py_split ''|||'' ''ALARM|||host1|||80/tcp|||1.2.3|||Vulnerable''
   = [''ALARM'', ''host1'', ''80/tcp'', ''1.2.3'', ''Vulnerable'']"
  by (simp add: py_split_def)

lemma strip_oid: "py_strip ''1.2.3'' = ''1.2.3''"
  by (simp add: py_strip_def is_py_space_def)

lemma strip_host: "py_strip ''host1'' = ''host1''"
  by (simp add: py_strip_def is_py_space_def)

text \<open>
  C8. For an \<open>ALARM\<close> record whose VT is found in the catalog (a non-empty id, no
  \<open>Host dead\<close> marker, and a QoD type that the table knows): when the VT's severity type
  is \<open>cvss_base_v2\<close> and its vector is not empty, the alarm carries the value the CVSS
  computation gives for the vector; when the type is anything else, or the vector is
  missing or empty, the alarm carries no severity.
\<close>

theorem alarm_severity:
  assumes "py_split ''|||'' res = ''ALARM'' # m1 # m2 # m3 # m4 # rest"
    and "py_strip m3 \<noteq> []" and "\<not> py_in ''Host dead'' m4"
    and "map_of (vts tr) (py_strip m3) = Some v"
    and "severities v = Some sev"
    and "truthy (qod_type v) \<longrightarrow> QOD_TYPES tr (the (qod_type v)) \<noteq> None"
  shows "(sev ''severity_type'' = Some ''cvss_base_v2'' \<and> sev ''severity_base_vector'' = Some vec
          \<and> vec \<noteq> [] \<and> cvss_base_v2_value tr vec = Inr (Some x) \<longrightarrow>
            (\<exists>hostname name q.
               result_events tr host res
               = Inr [AddScanAlarm host hostname name m4 m2 (py_strip m3) (Some x) q]))
       \<and> (sev ''severity_type'' \<noteq> Some ''cvss_base_v2'' \<or> \<not> truthy (sev ''severity_base_vector'') \<longrightarrow>
            (\<exists>hostname name q.
               result_events tr host res
               = Inr [AddScanAlarm host hostname name m4 m2 (py_strip m3) None q]))"
proof (intro conjI impI)
  assume a: "sev ''severity_type'' = Some ''cvss_base_v2'' \<and> sev ''severity_base_vector'' = Some vec
          \<and> vec \<noteq> [] \<and> cvss_base_v2_value tr vec = Inr (Some x)"
  then have s: "get_severity_score (cvss_base_v2_value tr) (Some v) = Inr (Some x)"
    by (simp add: severity_of_matched[OF assms(5)] truthy_def)
  show "\<exists>hostname name q.
               result_events tr host res
               = Inr [AddScanAlarm host hostname name m4 m2 (py_strip m3) (Some x) q]"
    using assms s by (auto simp add: result_events_def Let_def split: option.splits)
next
  assume a: "sev ''severity_type'' \<noteq> Some ''cvss_base_v2'' \<or> \<not> truthy (sev ''severity_base_vector'')"
  then have s: "get_severity_score (cvss_base_v2_value tr) (Some v) = Inr None"
    by (auto simp add: severity_of_matched[OF assms(5)])
  show "\<exists>hostname name q.
               result_events tr host res
               = Inr [AddScanAlarm host hostname name m4 m2 (py_strip m3) None q]"
    using assms s by (auto simp add: result_events_def Let_def split: option.splits)
qed

theorem alarm_severity_witness:
  "result_events
     \<lparr>vts = [(''1.2.3'', \<lparr>vt_name = Some ''Test'', vt_params = Map.empty, custom = Map.empty,
                         qod_type = None, qod = Some ''80'',
                         severities = Some [''severity_type'' \<mapsto> ''cvss_base_v2'',
                                            ''severity_base_vector'' \<mapsto> ''AV:N/AC:L/Au:N/C:P/I:P/A:P'']\<rparr>)],
      QOD_TYPES = Map.empty,
      cvss_base_v2_value = (\<lambda>vec. if vec = ''AV:N/AC:L/Au:N/C:P/I:P/A:P'' then Inr (Some (75::nat)) else Inl ValueError)\<rparr>
     ''192.168.0.1'' ''ALARM|||host1|||80/tcp|||1.2.3|||Vulnerable''
   = Inr [AddScanAlarm ''192.168.0.1'' ''host1'' (Some ''Test'') ''Vulnerable'' ''80/tcp'' ''1.2.3''
            (Some 75) ''80'']
   \<and> result_events
     \<lparr>vts = [(''1.2.3'', \<lparr>vt_name = Some ''Test'', vt_params = Map.empty, custom = Map.empty,
                         qod_type = None, qod = Some ''80'',
                         severities = Some [''severity_type'' \<mapsto> ''cvss_base_v3'',
                                            ''severity_base_vector'' \<mapsto> ''AV:N/AC:L/Au:N/C:P/I:P/A:P'']\<rparr>)],
      QOD_TYPES = Map.empty,
      cvss_base_v2_value = (\<lambda>vec. if vec = ''AV:N/AC:L/Au:N/C:P/I:P/A:P'' then Inr (Some (75::nat)) else Inl ValueError)\<rparr>
     ''192.168.0.1'' ''ALARM|||host1|||80/tcp|||1.2.3|||Vulnerable''
   = Inr [AddScanAlarm ''192.168.0.1'' ''host1'' (Some ''Test'') ''Vulnerable'' ''80/tcp'' ''1.2.3''
            None ''80'']"
  using alarm_severity[where res = "''ALARM|||host1|||80/tcp|||1.2.3|||Vulnerable''"
      and ?m1.0 = "''host1''" and ?m2.0 = "''80/tcp''" and ?m3.0 = "''1.2.3''"
      and ?m4.0 = "''Vulnerable''" and rest = "[]"
      and tr = "\<lparr>vts = [(''1.2.3'', \<lparr>vt_name = Some ''Test'', vt_params = Map.empty, custom = Map.empty,
                         qod_type = None, qod = Some ''80'',
                         severities = Some [''severity_type'' \<mapsto> ''cvss_base_v2'',
                                            ''severity_base_vector'' \<mapsto> ''AV:N/AC:L/Au:N/C:P/I:P/A:P'']\<rparr>)],
      QOD_TYPES = Map.empty,
      cvss_base_v2_value = (\<lambda>vec. if vec = ''AV:N/AC:L/Au:N/C:P/I:P/A:P'' then Inr (Some (75::nat)) else Inl ValueError)\<rparr>"
      and v = "\<lparr>vt_name = Some ''Test'', vt_params = Map.empty, custom = Map.empty,
                         qod_type = None, qod = Some ''80'',
                         severities = Some [''severity_type'' \<mapsto> ''cvss_base_v2'',
                                            ''severity_base_vector'' \<mapsto> ''AV:N/AC:L/Au:N/C:P/I:P/A:P'']\<rparr>"
      and sev = "[''severity_type'' \<mapsto> ''cvss_base_v2'',
                  ''severity_base_vector'' \<mapsto> ''AV:N/AC:L/Au:N/C:P/I:P/A:P'']"
      and vec = "''AV:N/AC:L/Au:N/C:P/I:P/A:P''" and x = 75 and host = "''192.168.0.1''"]
    alarm_severity[where res = "''ALARM|||host1|||80/tcp|||1.2.3|||Vulnerable''"
      and ?m1.0 = "''host1''" and ?m2.0 = "''80/tcp''" and ?m3.0 = "''1.2.3''"
      and ?m4.0 = "''Vulnerable''" and rest = "[]"
      and tr = "\<lparr>vts = [(''1.2.3'', \<lparr>vt_name = Some ''Test'', vt_params = Map.empty, custom = Map.empty,
                         qod_type = None, qod = Some ''80'',
                         severities = Some [''severity_type'' \<mapsto> ''cvss_base_v3'',
                                            ''severity_base_vector'' \<mapsto> ''AV:N/AC:L/Au:N/C:P/I:P/A:P'']\<rparr>)],
      QOD_TYPES = Map.empty,
      cvss_base_v2_value = (\<lambda>vec. if vec = ''AV:N/AC:L/Au:N/C:P/I:P/A:P'' then Inr (Some (75::nat)) else Inl ValueError)\<rparr>"
      and v = "\<lparr>vt_name = Some ''Test'', vt_params = Map.empty, custom = Map.empty,
                         qod_type = None, qod = Some ''80'',
                         severities = Some [''severity_type'' \<mapsto> ''cvss_base_v3'',
                                            ''severity_base_vector'' \<mapsto> ''AV:N/AC:L/Au:N/C:P/I:P/A:P'']\<rparr>"
      and sev = "[''severity_type'' \<mapsto> ''cvss_base_v3'',
                  ''severity_base_vector'' \<mapsto> ''AV:N/AC:L/Au:N/C:P/I:P/A:P'']"
      and host = "''192.168.0.1''"]
  by (simp add: split_alarm strip_oid strip_host truthy_def result_events_def
      get_severity_score_def)


section \<open>Properties of the scan orchestrator\<close>

subsection \<open>The polling loop\<close>

lemma get_openvas_result_harvested:
  "get_openvas_result tr i h st = Inr st' \<Longrightarrow> harvested st' = harvested st"
  by (auto simp add: get_openvas_result_def Let_def split: sum.splits)

lemma get_openvas_status_harvested:
  "harvested (get_openvas_status i t h st) = harvested st"
  by (simp add: get_openvas_status_def Let_def)

lemma get_openvas_timestamp_harvested:
  "harvested (get_openvas_timestamp_scan_host i h st) = harvested st"
  by (simp add: get_openvas_timestamp_scan_host_def)

lemma harvest_host_flag:
  assumes "harvest_host d sid tgt ovid main entry (st, nif) = Inr (st', nif')"
  shows "\<exists>xs. harvested st' = harvested st @ xs \<and> nif' = (nif \<and> xs = [])"
  using assms
  by (auto simp add: harvest_host_def Let_def get_openvas_status_harvested
      get_openvas_timestamp_harvested
      split: option.splits if_splits sum.splits dest!: get_openvas_result_harvested)

lemma harvest_hosts_flag:
  "harvest_hosts d sid tgt ovid main dbs (st, nif) = Inr (st', nif') \<Longrightarrow>
   \<exists>xs. harvested st' = harvested st @ xs \<and> nif' = (nif \<and> xs = [])"
proof (induction dbs arbitrary: st nif)
  case Nil
  then show ?case by simp
next
  case (Cons entry dbs)
  from Cons.prems obtain st1 nif1 where
    h: "harvest_host d sid tgt ovid main entry (st, nif) = Inr (st1, nif1)"
    and r: "harvest_hosts d sid tgt ovid main dbs (st1, nif1) = Inr (st', nif')"
    by (auto split: sum.splits)
  from harvest_host_flag[OF h] obtain xs where
    x: "harvested st1 = harvested st @ xs" "nif1 = (nif \<and> xs = [])" by blast
  from Cons.IH[OF r] obtain ys where
    y: "harvested st' = harvested st1 @ ys" "nif' = (nif1 \<and> ys = [])" by blast
  show ?case using x y by auto
qed

lemma poll_tick_break:
  assumes "poll_tick d sid tgt ovid main nif st0 = TickBreak st2"
  shows "nif \<and> harvested st2 = harvested st0 \<and> target_is_finished (store st2) main sid"
proof -
  from assms obtain st1 nif' where
    a: "get_openvas_result (translator.truncate d) main [] st0 = Inr st1"
    and b: "harvest_hosts d sid tgt ovid main
              (get_list_item (store st1) main ''internal/dbindex'') (st1, nif) = Inr (st2, nif')"
    and c: "nif'" "target_is_finished (store st2) main sid"
    by (auto simp add: poll_tick_def split: if_splits sum.splits prod.splits)
  from harvest_hosts_flag[OF b] c(1) get_openvas_result_harvested[OF a] c(2)
  show ?thesis by auto
qed

lemma poll_tick_continue:
  assumes "poll_tick d sid tgt ovid main True st0 = TickContinue st2"
  shows "\<not> (harvested st2 = harvested st0 \<and> target_is_finished (store st2) main sid)"
proof -
  from assms obtain st1 nif' where
    a: "get_openvas_result (translator.truncate d) main [] st0 = Inr st1"
    and b: "harvest_hosts d sid tgt ovid main
              (get_list_item (store st1) main ''internal/dbindex'') (st1, True) = Inr (st2, nif')"
    and c: "\<not> (nif' \<and> target_is_finished (store st2) main sid)"
    by (auto simp add: poll_tick_def split: if_splits sum.splits prod.splits)
  from harvest_hosts_flag[OF b] c get_openvas_result_harvested[OF a]
  show ?thesis by auto
qed

lemma poll_loop_end_True:
  "poll_loop d sid tgt ovid main es True st = Some (ReturnNone, st', obs) \<Longrightarrow>
   obs \<noteq> [] \<and> quiet (last obs) \<and> (\<forall>ob \<in> set (butlast obs). \<not> quiet ob)
   \<and> store st' main = None"
proof (induction es arbitrary: st obs)
  case Nil
  then show ?case by simp
next
  case (Cons e es)
  let ?st0 = "st\<lparr>store := act e (store st), harvested := []\<rparr>"
  show ?case
  proof (cases "poll_tick d sid tgt ovid main True ?st0")
    case (TickStopped x)
    with Cons.prems show ?thesis by (simp add: Let_def)
  next
    case (TickRaise x y)
    with Cons.prems show ?thesis by (simp add: Let_def)
  next
    case (TickBreak st2)
    from poll_tick_break[OF TickBreak] have "quiet (observe sid main st2)"
      by (simp add: quiet_def observe_def)
    with Cons.prems TickBreak show ?thesis
      by (auto simp add: Let_def release_db_def)
  next
    case (TickContinue st2)
    from poll_tick_continue[OF TickContinue] have nq: "\<not> quiet (observe sid main st2)"
      by (simp add: quiet_def observe_def)
    from Cons.prems TickContinue obtain obs' where
      r: "poll_loop d sid tgt ovid main es True st2 = Some (ReturnNone, st', obs')"
      and o: "obs = observe sid main st2 # obs'"
      by (auto simp add: Let_def split: option.splits)
    from Cons.IH[OF r] nq o show ?thesis by auto
  qed
qed

lemma poll_loop_end:
  assumes "poll_loop d sid tgt ovid main es False st = Some (ReturnNone, st', obs)"
  shows "2 \<le> length obs \<and> quiet (last obs) \<and> (\<forall>ob \<in> set (butlast (tl obs)). \<not> quiet ob)
         \<and> store st' main = None"
proof (cases es)
  case Nil
  with assms show ?thesis by simp
next
  case (Cons e es')
  let ?st0 = "st\<lparr>store := act e (store st), harvested := []\<rparr>"
  show ?thesis
  proof (cases "poll_tick d sid tgt ovid main False ?st0")
    case (TickStopped x)
    with assms Cons show ?thesis by (simp add: Let_def)
  next
    case (TickRaise x y)
    with assms Cons show ?thesis by (simp add: Let_def)
  next
    case (TickBreak st2)
    from poll_tick_break[OF TickBreak] show ?thesis by simp
  next
    case (TickContinue st2)
    from assms Cons TickContinue obtain obs' where
      r: "poll_loop d sid tgt ovid main es' True st2 = Some (ReturnNone, st', obs')"
      and o: "obs = observe sid main st2 # obs'"
      by (auto simp add: Let_def split: option.splits)
    from poll_loop_end_True[OF r] o show ?thesis by (cases obs') auto
  qed
qed







lemma poll_tick_stopped:
  "poll_tick d sid tgt ovid main nif st0 = TickStopped st1 \<Longrightarrow>
   st1 = st0 \<and> scan_is_stopped (store st0) main ovid"
  by (auto simp add: poll_tick_def split: if_splits sum.splits prod.splits)

lemma get_single_item_in_use: "get_single_item s i key = Some v \<Longrightarrow> s i \<noteq> None"
  by (auto simp add: get_single_item_def kb_values_def kb_of_def split: option.splits list.splits)

lemma poll_loop_stopped:
  "poll_loop d sid tgt ovid main es nif st = Some (ReturnInt 1, st', obs) \<Longrightarrow>
   scan_is_stopped (store st') main ovid \<and> store st' main \<noteq> None"
proof (induction es arbitrary: nif st obs)
  case Nil
  then show ?case by simp
next
  case (Cons e es)
  let ?st0 = "st\<lparr>store := act e (store st), harvested := []\<rparr>"
  show ?case
  proof (cases "poll_tick d sid tgt ovid main nif ?st0")
    case (TickStopped st1)
    from poll_tick_stopped[OF TickStopped] Cons.prems TickStopped
    have s: "st' = ?st0" and t: "scan_is_stopped (store st') main ovid"
      by (auto simp add: Let_def)
    from t have "store st' main \<noteq> None"
      using get_single_item_in_use[of "store st'" main "''internal/'' @ ovid" "''stop_all''"]
      by (simp add: scan_is_stopped_def)
    with t show ?thesis by simp
  next
    case (TickRaise err st1)
    with Cons.prems show ?thesis by (simp add: Let_def)
  next
    case (TickBreak st1)
    with Cons.prems show ?thesis by (simp add: Let_def)
  next
    case (TickContinue st1)
    with Cons.prems obtain obs' where
      "poll_loop d sid tgt ovid main es True st1 = Some (ReturnInt 1, st', obs')"
      by (auto simp add: Let_def split: option.splits)
    from Cons.IH[OF this] show ?thesis .
  qed
qed

lemmas run_eval = exec_scan_def write_preferences_def ex_daemon_def ex_request_def ex_env_def
  ex_os_def idle_def sets_status_def registers_host_def Let_def
  kb_new_def get_single_item_def set_single_item_def add_single_item_def
  get_list_item_def remove_list_item_def release_db_def kb_of_def kb_values_def set_queue_def
  RESULTS_KEY_def STATUS_KEY_def HOST_IP_KEY_def set_plugins_def
  process_vts_def build_alive_test_opt_as_prefs_def set_credentials_def
  merge_exclude_hosts_def scan_prefs_def poll_tick_def scan_is_stopped_def
  target_is_finished_def get_openvas_result_def observe_def translator.defs upt_rec
  str_of_nat.simps returned_def final_store_def observed_def
  harvest_host_def host_is_finished_def get_openvas_status_def
  get_openvas_timestamp_scan_host_def truthy_def py_nat_def is_digit_def digit_val_def






subsection \<open>Release of the main index\<close>

lemma release_host_kbs_None: "s k = None \<Longrightarrow> release_host_kbs ovid ks s k = None"
  by (induction ks arbitrary: s) (auto simp add: release_db_def)

lemma release_host_kbs_sub:
  "release_host_kbs ovid ks s k = None \<or> release_host_kbs ovid ks s k = s k"
proof (induction ks arbitrary: s)
  case Nil
  show ?case by simp
next
  case (Cons a ks)
  let ?s' = "if truthy (get_single_item s a (''internal/'' @ ovid)) then release_db s a else s"
  have step: "release_host_kbs ovid (a # ks) s = release_host_kbs ovid ks ?s'" by simp
  have sub: "?s' k = None \<or> ?s' k = s k" by (simp add: release_db_def)
  from Cons.IH[of ?s'] sub show ?case unfolding step by metis
qed

lemma get_single_item_released: "s k = None \<Longrightarrow> get_single_item s k key = None"
  by (simp add: get_single_item_def kb_values_def kb_of_def)

lemma only_mapping_release_host_kbs:
  assumes "only_mapping s main sid"
  shows "only_mapping (release_host_kbs ovid ks s) main sid"
  unfolding only_mapping_def
proof (intro allI impI)
  fix k assume k: "k \<noteq> main"
  have "release_host_kbs ovid ks s k = None \<or> release_host_kbs ovid ks s k = s k"
    by (rule release_host_kbs_sub)
  then have "get_single_item (release_host_kbs ovid ks s) k (''internal/'' @ sid @ ''/globalscanid'')
             = None
           \<or> get_single_item (release_host_kbs ovid ks s) k (''internal/'' @ sid @ ''/globalscanid'')
             = get_single_item s k (''internal/'' @ sid @ ''/globalscanid'')"
    by (auto simp add: get_single_item_def kb_values_def kb_of_def)
  with assms k show "\<not> truthy (get_single_item (release_host_kbs ovid ks s) k
                        (''internal/'' @ sid @ ''/globalscanid''))"
    by (auto simp add: only_mapping_def truthy_def)
qed

lemma only_mapping_other:
  assumes "only_mapping s main sid" and "\<forall>k. k \<noteq> main \<longrightarrow> s' k = s k"
  shows "only_mapping s' main sid"
  using assms by (simp add: only_mapping_def get_single_item_def kb_values_def kb_of_def)

lemma cleanup_skip_all:
  assumes "only_mapping s main sid" and "s main = None"
  shows "stop_scan_cleanup_loop osenv mx sid ks s = Some (CleanupNone, s)"
proof (induction ks)
  case Nil
  show ?case by simp
next
  case (Cons k ks)
  have "\<not> truthy (get_single_item s k (''internal/'' @ sid @ ''/globalscanid''))"
  proof (cases "k = main")
    case True
    then show ?thesis using assms(2) by (simp add: get_single_item_released truthy_def)
  next
    case False
    then show ?thesis using assms(1) by (simp add: only_mapping_def)
  qed
  then show ?case using Cons.IH by (simp add: Let_def)
qed

lemma cleanup_releases_main:
  assumes om: "only_mapping s main sid"
    and g: "get_single_item s main (''internal/'' @ sid @ ''/globalscanid'') = Some ovid"
    and ne: "ovid \<noteq> []" and np: "ovid \<noteq> ''ovas_pid''"
    and es: "engine_stoppable osenv (get_single_item s main ''internal/ovas_pid'')"
    and mem: "main \<in> set ks"
  shows "\<exists>s'. stop_scan_cleanup_loop osenv mx sid ks s = Some (CleanupNone, s') \<and> s' main = None"
  using mem
proof (induction ks)
  case Nil
  then show ?case by simp
next
  case (Cons k ks)
  show ?case
  proof (cases "k = main")
    case False
    then have "\<not> truthy (get_single_item s k (''internal/'' @ sid @ ''/globalscanid''))"
      using om by (simp add: only_mapping_def)
    moreover have "main \<in> set ks" using Cons.prems False by simp
    ultimately show ?thesis using Cons.IH by (simp add: Let_def)
  next
    case True
    let ?s1 = "set_single_item s main (''internal/'' @ ovid) [''stop_all'']"
    let ?rel = "release_host_kbs ovid [0..<mx] (release_db ?s1 main)"
    have t: "truthy (get_single_item s main (''internal/'' @ sid @ ''/globalscanid''))"
      using g ne by (simp add: truthy_def)
    have pid: "get_single_item ?s1 main ''internal/ovas_pid''
               = get_single_item s main ''internal/ovas_pid''"
      using np by (simp add: get_single_item_def set_single_item_def kb_values_def kb_of_def)
    have relmain: "?rel main = None"
      by (rule release_host_kbs_None) (simp add: release_db_def)
    have "only_mapping (release_db ?s1 main) main sid"
      by (rule only_mapping_other[OF om]) (simp add: release_db_def set_single_item_def)
    then have omrel: "only_mapping ?rel main sid"
      by (rule only_mapping_release_host_kbs)
    have rest: "stop_scan_cleanup_loop osenv mx sid ks ?rel = Some (CleanupNone, ?rel)"
      by (rule cleanup_skip_all[OF omrel relmain])
    have "stop_scan_cleanup_loop osenv mx sid (k # ks) s = Some (CleanupNone, ?rel)"
      using True t g es pid rest
      by (auto simp add: Let_def engine_stoppable_def split: option.splits)
    with relmain show ?thesis by blast
  qed
qed

lemma wait_loop_spawn_failure:
  assumes st: "get_single_item (act e (store st)) main (''internal/'' @ ovid) = Some ''new''"
    and ex: "exit_code e = Some c" "c < 0"
    and om: "only_mapping (act e (store st)) main sid"
    and g: "get_single_item (act e (store st)) main (''internal/'' @ sid @ ''/globalscanid'')
            = Some ovid'"
    and ne: "ovid' \<noteq> []" and np: "ovid' \<noteq> ''ovas_pid''"
    and es: "engine_stoppable osenv (get_single_item (act e (store st)) main ''internal/ovas_pid'')"
    and mx: "main < max_dbindex d"
  shows "\<exists>s'. wait_loop d osenv sid tgt ovid main (e # es) st
               = Some (ReturnInt 1, st\<lparr>store := s'\<rparr>, [])
             \<and> s' main = None"
proof -
  have "main \<in> set [0..<max_dbindex d]" using mx by simp
  from cleanup_releases_main[OF om g ne np es this, of "max_dbindex d"]
  obtain s' where c: "stop_scan_cleanup osenv (max_dbindex d) sid (act e (store st))
                      = Some (CleanupNone, s')"
    and r: "s' main = None"
    by (auto simp add: stop_scan_cleanup_def)
  have "wait_loop d osenv sid tgt ovid main (e # es) st = Some (ReturnInt 1, st\<lparr>store := s'\<rparr>, [])"
    using st ex c by (simp add: Let_def)
  with r show ?thesis by blast
qed

lemma wait_loop_normal:
  "wait_loop d osenv sid tgt ovid main es st = Some (ReturnNone, st', obs) \<Longrightarrow>
   store st' main = None"
proof (induction es arbitrary: st)
  case Nil
  then show ?case by simp
next
  case (Cons e es)
  let ?st1 = "st\<lparr>store := act e (store st)\<rparr>"
  show ?case
  proof (cases "get_single_item (store ?st1) main (''internal/'' @ ovid) = Some ''new''")
    case False
    with Cons.prems have "poll_loop d sid tgt ovid main es False ?st1 = Some (ReturnNone, st', obs)"
      by (simp add: Let_def)
    from poll_loop_end[OF this] show ?thesis by simp
  next
    case True
    show ?thesis
    proof (cases "case exit_code e of None \<Rightarrow> False | Some res \<Rightarrow> res < 0")
      case False
      with True Cons.prems have "wait_loop d osenv sid tgt ovid main es ?st1 = Some (ReturnNone, st', obs)"
        by (simp add: Let_def)
      from Cons.IH[OF this] show ?thesis .
    next
      case neg: True
      with True Cons.prems show ?thesis
        by (auto simp add: Let_def split: option.splits cleanup_ret.splits prod.splits)
    qed
  qed
qed

lemma exec_scan_normal:
  assumes "exec_scan d rq env s0 = Some (ReturnNone, st', obs)"
    and "kb_new (max_dbindex d) s0 = Some main"
  shows "store st' main = None"
  using assms
  by (auto simp add: exec_scan_def
      split: if_splits option.splits sum.splits prod.splits dest: wait_loop_normal)

text \<open>
  C2, as the code has it. On normal completion \<open>exec_scan\<close> has released the main
  index when it returns. When the engine has exited with a negative code while the
  status still reads \<open>new\<close>, the waiting loop runs \<open>stop_scan_cleanup\<close> and returns 1
  with the main index released, provided that the main index is the only partition
  that maps the client's scan id and that the engine's process is gone or can be
  stopped. When the polling loop returns 1 for a client's stop, the main index is
  still in use and still holds the status \<open>stop_all\<close>: \<open>exec_scan\<close> does not release it
  on this branch, the release is left to \<open>stop_scan_cleanup\<close>, which the stop request
  runs.
\<close>

theorem main_index_release:
  "(exec_scan d rq env s0 = Some (ReturnNone, st', obs) \<and> kb_new (max_dbindex d) s0 = Some main0
      \<longrightarrow> store st' main0 = None)
   \<and> (get_single_item (act e (store st)) main (''internal/'' @ ovid) = Some ''new''
      \<and> exit_code e = Some c \<and> c < 0
      \<and> only_mapping (act e (store st)) main sid
      \<and> get_single_item (act e (store st)) main (''internal/'' @ sid @ ''/globalscanid'')
          = Some ovid'
      \<and> ovid' \<noteq> [] \<and> ovid' \<noteq> ''ovas_pid''
      \<and> engine_stoppable osenv (get_single_item (act e (store st)) main ''internal/ovas_pid'')
      \<and> main < max_dbindex d \<longrightarrow>
        (\<exists>s'. wait_loop d osenv sid tgt ovid main (e # es) st
                 = Some (ReturnInt 1, st\<lparr>store := s'\<rparr>, [])
              \<and> s' main = None))
   \<and> (poll_loop d sid tgt ovid main es2 nif st2 = Some (ReturnInt 1, st3, obs3) \<longrightarrow>
        scan_is_stopped (store st3) main ovid \<and> store st3 main \<noteq> None)"
proof (intro conjI impI)
  assume "exec_scan d rq env s0 = Some (ReturnNone, st', obs) \<and> kb_new (max_dbindex d) s0 = Some main0"
  then show "store st' main0 = None" using exec_scan_normal by blast
next
  assume a: "get_single_item (act e (store st)) main (''internal/'' @ ovid) = Some ''new''
      \<and> exit_code e = Some c \<and> c < 0
      \<and> only_mapping (act e (store st)) main sid
      \<and> get_single_item (act e (store st)) main (''internal/'' @ sid @ ''/globalscanid'')
          = Some ovid'
      \<and> ovid' \<noteq> [] \<and> ovid' \<noteq> ''ovas_pid''
      \<and> engine_stoppable osenv (get_single_item (act e (store st)) main ''internal/ovas_pid'')
      \<and> main < max_dbindex d"
  show "\<exists>s'. wait_loop d osenv sid tgt ovid main (e # es) st
                 = Some (ReturnInt 1, st\<lparr>store := s'\<rparr>, [])
              \<and> s' main = None"
    by (rule wait_loop_spawn_failure) (use a in blast)+
next
  assume "poll_loop d sid tgt ovid main es2 nif st2 = Some (ReturnInt 1, st3, obs3)"
  then show "scan_is_stopped (store st3) main ovid" and "store st3 main \<noteq> None"
    using poll_loop_stopped by blast+
qed

theorem main_index_release_witness:
  "returned (exec_scan ex_daemon ex_request (ex_env [sets_status ''finished'', idle, idle])
              Map.empty) = Some ReturnNone
   \<and> final_store (exec_scan ex_daemon ex_request (ex_env [sets_status ''finished'', idle, idle])
              Map.empty) 0 = None
   \<and> (\<exists>s'. wait_loop ex_daemon ex_os ''scan1'' ''10.0.0.5'' ''u1'' 0 [dies] (ex_launched ''new'')
             = Some (ReturnInt 1, (ex_launched ''new'')\<lparr>store := s'\<rparr>, [])
           \<and> s' 0 = None)
   \<and> (\<exists>st3 obs3. poll_loop ex_daemon ''scan1'' ''10.0.0.5'' ''u1'' 0 [sets_status ''stop_all'']
                    False (ex_launched ''running'')
                  = Some (ReturnInt 1, st3, obs3)
                \<and> store st3 0 \<noteq> None)"
proof -
  have "\<exists>st' obs. exec_scan ex_daemon ex_request (ex_env [sets_status ''finished'', idle, idle])
              Map.empty = Some (ReturnNone, st', obs)"
    by (simp add: run_eval)
  then obtain st' obs where
    r: "exec_scan ex_daemon ex_request (ex_env [sets_status ''finished'', idle, idle])
              Map.empty = Some (ReturnNone, st', obs)" by blast
  have k: "kb_new (max_dbindex ex_daemon) Map.empty = Some 0"
    by (simp add: kb_new_def ex_daemon_def upt_rec)
  have a: "store st' 0 = None"
    using main_index_release[where d = ex_daemon and rq = ex_request
        and env = "ex_env [sets_status ''finished'', idle, idle]" and ?s0.0 = Map.empty
        and st' = st' and obs = obs and ?main0.0 = 0] r k
    by blast
  have b: "\<exists>s'. wait_loop ex_daemon ex_os ''scan1'' ''10.0.0.5'' ''u1'' 0 [dies] (ex_launched ''new'')
             = Some (ReturnInt 1, (ex_launched ''new'')\<lparr>store := s'\<rparr>, [])
           \<and> s' 0 = None"
    using main_index_release[where e = dies and st = "ex_launched ''new''" and main = 0
        and ovid = "''u1''" and c = "- 1" and sid = "''scan1''" and ovid' = "''u1''"
        and osenv = ex_os and d = ex_daemon and tgt = "''10.0.0.5''" and es = "[]"]
    by (simp add: dies_def ex_launched_def ex_os_def ex_daemon_def only_mapping_def
        engine_stoppable_def get_single_item_def kb_values_def kb_of_def truthy_def py_int_eval)
  have "\<exists>st3 obs3. poll_loop ex_daemon ''scan1'' ''10.0.0.5'' ''u1'' 0 [sets_status ''stop_all'']
                    False (ex_launched ''running'') = Some (ReturnInt 1, st3, obs3)"
    by (simp add: run_eval ex_launched_def)
  then obtain st3 obs3 where
    p: "poll_loop ex_daemon ''scan1'' ''10.0.0.5'' ''u1'' 0 [sets_status ''stop_all'']
          False (ex_launched ''running'') = Some (ReturnInt 1, st3, obs3)" by blast
  have c: "store st3 0 \<noteq> None"
    using main_index_release[where d = ex_daemon and sid = "''scan1''" and tgt = "''10.0.0.5''"
        and ovid = "''u1''" and main = 0 and ?es2.0 = "[sets_status ''stop_all'']"
        and nif = False and ?st2.0 = "ex_launched ''running''" and ?st3.0 = st3
        and ?obs3.0 = obs3] p
    by blast
  from r a b p c show ?thesis
    by (auto simp add: returned_def final_store_def)
qed

text \<open>
  C2, as stated, fails: in this run the engine starts, the client's stop is written into
  the main index 0, and \<open>exec_scan\<close> returns 1 while the main index is still in use.
\<close>

theorem stop_counterexample:
  "kb_new (max_dbindex ex_daemon) Map.empty = Some 0
   \<and> returned (exec_scan ex_daemon ex_request
                 (ex_env [sets_status ''running'', sets_status ''stop_all'']) Map.empty)
       = Some (ReturnInt 1)
   \<and> final_store (exec_scan ex_daemon ex_request
                 (ex_env [sets_status ''running'', sets_status ''stop_all'']) Map.empty) 0 \<noteq> None"
  by (simp add: run_eval)



end
